theory Spec2Isabelle
  imports Main "HOL-Library.Sublist"
begin

section \<open>Strings\<close>

text \<open>
  A JavaScript string is modelled as a \<^typ>\<open>string\<close>: the list of the bytes of its UTF-8
  encoding. Every literal, separator and character class of \<^verbatim>\<open>src/index.js\<close> other than
  the arrow of the templates and the white space class is ASCII, so searching, splitting and
  concatenating bytes is searching, splitting and concatenating the text.
\<close>

definition nl :: string where
  "nl = [CHR 0x0A]"

text \<open>The arrow U+2192 of the templates.\<close>

definition arrow :: string where
  "arrow = [CHR 0xE2, CHR 0x86, CHR 0x92]"

text \<open>\<^verbatim>\<open>[0-9]\<close> and \<^verbatim>\<open>\d\<close> (ASCII digits only in JavaScript).\<close>

definition is_digit :: "char \<Rightarrow> bool" where
  "is_digit c = (c \<in> set ''0123456789'')"

text \<open>
  The characters matched by \<^verbatim>\<open>\s\<close> and removed by \<^verbatim>\<open>String.prototype.trim\<close>
  (WhiteSpace and LineTerminator of ECMAScript), each in UTF-8: TAB, LF, VT, FF, CR, SP,
  U+00A0, U+1680, U+2000..U+200A, U+2028, U+2029, U+202F, U+205F, U+3000, U+FEFF.
\<close>

definition white_space :: "string list" where
  "white_space =
     [[CHR 0x09], [CHR 0x0A], [CHR 0x0B], [CHR 0x0C], [CHR 0x0D], [CHR 0x20],
      [CHR 0xC2, CHR 0xA0],
      [CHR 0xE1, CHR 0x9A, CHR 0x80],
      [CHR 0xE2, CHR 0x80, CHR 0x80], [CHR 0xE2, CHR 0x80, CHR 0x81],
      [CHR 0xE2, CHR 0x80, CHR 0x82], [CHR 0xE2, CHR 0x80, CHR 0x83],
      [CHR 0xE2, CHR 0x80, CHR 0x84], [CHR 0xE2, CHR 0x80, CHR 0x85],
      [CHR 0xE2, CHR 0x80, CHR 0x86], [CHR 0xE2, CHR 0x80, CHR 0x87],
      [CHR 0xE2, CHR 0x80, CHR 0x88], [CHR 0xE2, CHR 0x80, CHR 0x89],
      [CHR 0xE2, CHR 0x80, CHR 0x8A],
      [CHR 0xE2, CHR 0x80, CHR 0xA8], [CHR 0xE2, CHR 0x80, CHR 0xA9],
      [CHR 0xE2, CHR 0x80, CHR 0xAF],
      [CHR 0xE2, CHR 0x81, CHR 0x9F],
      [CHR 0xE3, CHR 0x80, CHR 0x80],
      [CHR 0xEF, CHR 0xBB, CHR 0xBF]]"

text \<open>
  The number of bytes of the white space character at the head of a string, \<open>0\<close> when the
  string does not start with one.
\<close>

definition ws_len :: "string \<Rightarrow> nat" where
  "ws_len s = (case find (\<lambda>w. prefix w s) white_space of None \<Rightarrow> 0 | Some w \<Rightarrow> length w)"

text \<open>The same at the end of a string, read on the reversed string.\<close>

definition ws_len_rev :: "string \<Rightarrow> nat" where
  "ws_len_rev r =
     (case find (\<lambda>w. prefix w r) (map rev white_space) of None \<Rightarrow> 0 | Some w \<Rightarrow> length w)"

text \<open>
  A greedy \<^verbatim>\<open>\s*\<close>: drop white space characters as long as there is one. The fuel is the
  length of the string, which bounds the number of characters dropped.
\<close>

fun drop_while_len :: "(string \<Rightarrow> nat) \<Rightarrow> nat \<Rightarrow> string \<Rightarrow> string" where
  "drop_while_len f 0 s = s"
| "drop_while_len f (Suc n) s = (if f s = 0 then s else drop_while_len f n (drop (f s) s))"

definition trimStart :: "string \<Rightarrow> string" where
  "trimStart s = drop_while_len ws_len (length s) s"

definition trimEnd :: "string \<Rightarrow> string" where
  "trimEnd s = rev (drop_while_len ws_len_rev (length s) (rev s))"

definition trim :: "string \<Rightarrow> string" where
  "trim s = trimEnd (trimStart s)"

text \<open>\<^verbatim>\<open>s.startsWith(p)\<close> is \<^term>\<open>prefix p s\<close>; \<^verbatim>\<open>s.includes(p)\<close>:\<close>

fun includes_str :: "string \<Rightarrow> string \<Rightarrow> bool" where
  "includes_str [] p = (p = [])"
| "includes_str (c # cs) p = (prefix p (c # cs) \<or> includes_str cs p)"

text \<open>\<^verbatim>\<open>s.split(c)\<close> for a separator of one character: never the empty array.\<close>

fun split :: "char \<Rightarrow> string \<Rightarrow> string list" where
  "split c [] = [[]]"
| "split c (x # xs) =
     (if x = c then [] # split c xs
      else (case split c xs of [] \<Rightarrow> [[x]] | y # ys \<Rightarrow> (x # y) # ys))"

text \<open>\<^verbatim>\<open>s.replace(pat, rep)\<close> for a string pattern: the first occurrence only.\<close>

fun replace :: "string \<Rightarrow> string \<Rightarrow> string \<Rightarrow> string" where
  "replace pat rep [] = (if pat = [] then rep else [])"
| "replace pat rep (c # cs) =
     (if prefix pat (c # cs) then rep @ drop (length pat) (c # cs)
      else c # replace pat rep cs)"

text \<open>A number in a template literal: its decimal digits.\<close>

fun string_of_nat :: "nat \<Rightarrow> string" where
  "string_of_nat n =
     (if n < 10 then [char_of (48 + n)]
      else string_of_nat (n div 10) @ [char_of (48 + n mod 10)])"

declare string_of_nat.simps [simp del]

section \<open>Version Mapper\<close>

text \<open>
  \<^verbatim>\<open>version.match(/^(\d+)\.(\d+)\.(\d+)$/)\<close>: the three captured groups, or \<open>None\<close> for
  \<^verbatim>\<open>null\<close>. Each \<^verbatim>\<open>\d+\<close> is greedy and is followed by a character that is no digit (or by
  the end of the input), so each group is the longest run of digits.
\<close>

definition semverMatch :: "string \<Rightarrow> (string \<times> string \<times> string) option" where
  "semverMatch version =
     (let major = takeWhile is_digit version; r1 = dropWhile is_digit version in
      if major = [] then None
      else (case r1 of
          c1 # r2 \<Rightarrow>
            if c1 \<noteq> CHR ''.'' then None
            else
              (let minor = takeWhile is_digit r2; r3 = dropWhile is_digit r2 in
               if minor = [] then None
               else (case r3 of
                   c2 # patch \<Rightarrow>
                     if c2 \<noteq> CHR ''.'' then None
                     else if patch \<noteq> [] \<and> list_all is_digit patch
                       then Some (major, minor, patch)
                       else None
                 | [] \<Rightarrow> None))
        | [] \<Rightarrow> None))"

definition mapVersionToTag :: "string \<Rightarrow> string list \<Rightarrow> string" where
  "mapVersionToTag version tags =
     (if version \<in> set tags then version
      else (case semverMatch version of
          Some (major, minor, patch) \<Rightarrow>
            (let legacyTag = ''8.x-'' @ major @ ''.'' @ minor in
             if legacyTag \<in> set tags then legacyTag else version)
        | None \<Rightarrow> version))"

text \<open>
  The shape of the specification: \<open>MAJOR.MINOR.PATCH\<close>, three non-empty runs of decimal
  digits separated by dots and nothing else.
\<close>

definition digits :: "string \<Rightarrow> bool" where
  "digits s = (s \<noteq> [] \<and> list_all is_digit s)"

definition semver_shape :: "string \<Rightarrow> string \<Rightarrow> string \<Rightarrow> string \<Rightarrow> bool" where
  "semver_shape v major minor patch =
     (digits major \<and> digits minor \<and> digits patch \<and> v = major @ ''.'' @ minor @ ''.'' @ patch)"

section \<open>Data model\<close>

text \<open>
  The JSON bodies have the shape of the two endpoints,
  \<^verbatim>\<open>{tags: [{name}]}\<close> and
  \<^verbatim>\<open>{changes: [{type, changes: [{nid, link, summary}]}], changeRecords: [...]}\<close>.
  A field the code tests before use is optional (\<open>None\<close> stands for a missing or \<^verbatim>\<open>null\<close>
  field); a field the code puts into a template literal without a test keeps the difference
  between missing, \<^verbatim>\<open>null\<close> and a string, which the template renders differently.
  A body of another shape (a summary that is no string, a group that is \<^verbatim>\<open>null\<close>), on
  which the rendering would raise a TypeError, is outside this model.
\<close>

datatype jsstr = Undefined | Null | Str string

fun template :: "jsstr \<Rightarrow> string" where
  "template Undefined = ''undefined''"
| "template Null = ''null''"
| "template (Str s) = s"

record package =
  pkg_name :: string
  pkg_project :: string
  pkg_from :: string
  pkg_to :: string

record change =
  change_nid :: jsstr
  change_link :: jsstr
  change_summary :: string

record typeGroup =
  group_type :: "string option"
  group_changes :: "change list option"

record changeRecord =
  record_url :: "string option"
  record_link :: "string option"
  record_title :: "string option"
  record_summary :: "string option"

record tag =
  tag_name :: string

record data =
  data_tags :: "tag list option"
  data_changes :: "typeGroup list option"
  data_changeRecords :: "changeRecord list option"

text \<open>
  A response of \<^verbatim>\<open>fetch\<close>: \<^verbatim>\<open>response.json()\<close> throws (\<open>Inl\<close> the message of the error) or
  gives the parsed body, \<open>None\<close> for the JSON text \<^verbatim>\<open>null\<close>.
\<close>

record response =
  ok :: bool
  status :: nat
  json :: "string + data option"

record env =
  GITHUB_TOKEN :: "string option"
  DEPENDENCY_NAMES :: "string option"
  PREVIOUS_VERSION :: "string option"
  NEW_VERSION :: "string option"

record pull_request =
  pr_number :: "nat option"

record gh_context =
  repo_owner :: string
  repo_repo :: string
  payload_pull_request :: "pull_request option"

text \<open>
  The outside world is a state \<open>'w\<close> that every call reads and changes. A call that throws
  returns \<open>Inl\<close> the message of the error. \<open>pulls_get\<close> returns \<^verbatim>\<open>pr.body\<close>, \<open>None\<close> for
  \<^verbatim>\<open>null\<close>. The arguments of the two pull request calls are owner, repo and pull number;
  \<open>pulls_update\<close> has the new body as well.
\<close>

record 'w io =
  fetch :: "string \<Rightarrow> 'w \<Rightarrow> (string + response) \<times> 'w"
  pulls_get :: "string \<Rightarrow> string \<Rightarrow> nat \<Rightarrow> 'w \<Rightarrow> (string + string option) \<times> 'w"
  pulls_update :: "string \<Rightarrow> string \<Rightarrow> nat \<Rightarrow> string \<Rightarrow> 'w \<Rightarrow> (string + unit) \<times> 'w"

text \<open>What a run does, in order: the messages of \<^verbatim>\<open>@actions/core\<close> and the calls made.\<close>

datatype event =
    CoreInfo string
  | CoreWarning string
  | CoreError string
  | CoreSetFailed string
  | FetchCall string
  | PullsGet string string nat
  | PullsUpdate string string nat string

text \<open>The variables of the loop over the packages, with the world and the events so far.\<close>

record 'w state =
  world :: 'w
  events :: "event list"
  releaseNotesSection :: string
  hasReleaseNotes :: bool

section \<open>Tag Fetcher\<close>

definition tags_url :: "string \<Rightarrow> string" where
  "tags_url project = ''https://api.drupal-mrn.dev/project?project='' @ project"

text \<open>
  The message of the TypeError that reading \<^verbatim>\<open>data.tags\<close> raises when the body is
  \<^verbatim>\<open>null\<close> (the wording is Node's).
\<close>

definition null_tags_message :: string where
  "null_tags_message = ''Cannot read properties of null (reading '' @ [CHR 0x27] @ ''tags''
     @ [CHR 0x27] @ '')''"

text \<open>
  The \<^verbatim>\<open>try\<close> block of \<^verbatim>\<open>fetchProjectTags\<close>: \<open>Inl\<close> the message of a thrown error, \<open>Inr\<close>
  the returned array.
\<close>

definition fetchProjectTags_try ::
  "'w io \<Rightarrow> string \<Rightarrow> 'w \<times> event list \<Rightarrow> (string + string list) \<times> 'w \<times> event list" where
  "fetchProjectTags_try io project s =
     (case s of (w, evs) \<Rightarrow>
      (case fetch io (tags_url project) w of (r, w') \<Rightarrow>
        (let evs' = evs @ [FetchCall (tags_url project)] in
         case r of
           Inl msg \<Rightarrow> (Inl msg, w', evs')
         | Inr response \<Rightarrow>
             if \<not> ok response then
               (Inr [], w', evs' @ [CoreWarning (''Failed to fetch project tags for '' @ project
                  @ '': '' @ string_of_nat (status response))])
             else (case json response of
                 Inl msg \<Rightarrow> (Inl msg, w', evs')
               | Inr None \<Rightarrow> (Inl null_tags_message, w', evs')
               | Inr (Some data) \<Rightarrow>
                   (Inr (map tag_name (case data_tags data of None \<Rightarrow> [] | Some ts \<Rightarrow> ts)),
                    w', evs')))))"

text \<open>\<^verbatim>\<open>fetchProjectTags\<close>: the \<^verbatim>\<open>try\<close> block with its \<^verbatim>\<open>catch\<close>.\<close>

definition fetchProjectTags ::
  "'w io \<Rightarrow> string \<Rightarrow> 'w \<times> event list \<Rightarrow> string list \<times> 'w \<times> event list" where
  "fetchProjectTags io project s =
     (case fetchProjectTags_try io project s of
        (Inl msg, w, evs) \<Rightarrow>
          ([], w, evs @ [CoreWarning (''Error fetching project tags for '' @ project
             @ '': '' @ msg)])
      | (Inr tags, w, evs) \<Rightarrow> (tags, w, evs))"

section \<open>Orchestrator: the packages of the update\<close>

text \<open>\<^verbatim>\<open>process.env.X || ''\<close>\<close>

definition env_or_empty :: "string option \<Rightarrow> string" where
  "env_or_empty v = (case v of None \<Rightarrow> [] | Some s \<Rightarrow> s)"

text \<open>\<^verbatim>\<open>s.split(',').map(p => p.trim())\<close>\<close>

definition split_trim :: "string \<Rightarrow> string list" where
  "split_trim s = map trim (split CHR '','' s)"

text \<open>
  \<^verbatim>\<open>versions[i] || versions[0]\<close>: an index out of range reads \<^verbatim>\<open>undefined\<close> and the empty
  string is falsy. The array comes from \<^verbatim>\<open>split\<close> and is never empty.
\<close>

definition elem_or_first :: "string list \<Rightarrow> nat \<Rightarrow> string" where
  "elem_or_first versions i =
     (if i < length versions \<and> versions ! i \<noteq> [] then versions ! i else hd versions)"

function drupalPackages_loop ::
  "string list \<Rightarrow> string list \<Rightarrow> string list \<Rightarrow> nat \<Rightarrow> package list \<Rightarrow> package list" where
  "drupalPackages_loop packages fromVersions toVersions i drupalPackages =
     (if i < length packages then
        drupalPackages_loop packages fromVersions toVersions (Suc i)
          (if prefix ''drupal/'' (packages ! i) then
             drupalPackages @
               [\<lparr>pkg_name = packages ! i,
                 pkg_project = replace ''drupal/'' [] (packages ! i),
                 pkg_from = elem_or_first fromVersions i,
                 pkg_to = elem_or_first toVersions i\<rparr>]
           else drupalPackages)
      else drupalPackages)"
  by pat_completeness auto
termination
  by (relation "measure (\<lambda>(packages, fromVersions, toVersions, i, drupalPackages).
        length packages - i)") auto

declare drupalPackages_loop.simps [simp del]

definition drupalPackages :: "env \<Rightarrow> package list" where
  "drupalPackages e =
     drupalPackages_loop
       (split_trim (env_or_empty (DEPENDENCY_NAMES e)))
       (split_trim (env_or_empty (PREVIOUS_VERSION e)))
       (split_trim (env_or_empty (NEW_VERSION e))) 0 []"

section \<open>Orchestrator: rendering\<close>

text \<open>
  The group \<^verbatim>\<open>(?:\s+by\s+[^:]+)\<close> and the colon after it, at the head of \<open>s\<close>: the input
  after that colon, or \<open>None\<close>. The first \<^verbatim>\<open>\s+\<close> takes all the white space there is, since
  \<^verbatim>\<open>b\<close> must follow. After \<^verbatim>\<open>by\<close>, the text up to the first colon is shared between
  \<^verbatim>\<open>\s+\<close> and \<^verbatim>\<open>[^:]+\<close>: it matches exactly when it starts with a white space character
  and has at least one more character, and a colon ends it.
\<close>

definition match_by :: "string \<Rightarrow> string option" where
  "match_by s =
     (if ws_len s = 0 then None
      else (case trimStart s of
          b # y # r \<Rightarrow>
            if b = CHR ''b'' \<and> y = CHR ''y'' \<and> 0 < ws_len r then
              (let names = takeWhile (\<lambda>c. c \<noteq> CHR '':'') r;
                   rest = dropWhile (\<lambda>c. c \<noteq> CHR '':'') r
               in if ws_len r < length names \<and> rest \<noteq> [] then Some (tl rest) else None)
            else None
        | _ \<Rightarrow> None))"

text \<open>
  \<^verbatim>\<open>/^#[0-9]+(?:\s+by\s+[^:]+)?:\s*/\<close> on a summary: the input after the match, or \<open>None\<close>
  when there is no match. The digits are all the digits there are, since a colon or white
  space must follow; the group is tried first and the bare colon after it.
\<close>

definition match_issue_prefix :: "string \<Rightarrow> string option" where
  "match_issue_prefix summary =
     (case summary of
        [] \<Rightarrow> None
      | h # r \<Rightarrow>
          if h \<noteq> CHR ''#'' then None
          else
            (let ds = takeWhile is_digit r; r1 = dropWhile is_digit r in
             if ds = [] then None
             else (case match_by r1 of
                 Some r2 \<Rightarrow> Some (trimStart r2)
               | None \<Rightarrow>
                   (case r1 of
                      [] \<Rightarrow> None
                    | c # r2 \<Rightarrow> if c = CHR '':'' then Some (trimStart r2) else None))))"

text \<open>\<^verbatim>\<open>change.summary.replace(/^#[0-9]+(?:\s+by\s+[^:]+)?:\s*/, '')\<close>\<close>

definition summaryWithoutId :: "string \<Rightarrow> string" where
  "summaryWithoutId summary =
     (case match_issue_prefix summary of None \<Rightarrow> summary | Some rest \<Rightarrow> rest)"

text \<open>The line of one change (the body of the inner loop).\<close>

definition render_change :: "change \<Rightarrow> string" where
  "render_change c =
     (let issueId = ''#'' @ template (change_nid c);
          summary = summaryWithoutId (change_summary c)
      in ''* ['' @ issueId @ '']('' @ template (change_link c) @ '')''
         @ (if summary \<noteq> [] then '': '' @ summary else []) @ nl)"

text \<open>One type group (the body of the loop over \<^verbatim>\<open>data.changes\<close>).\<close>

definition render_typeGroup :: "typeGroup \<Rightarrow> string" where
  "render_typeGroup typeGroup =
     (let ty = (case group_type typeGroup of
                  None \<Rightarrow> ''Misc''
                | Some t \<Rightarrow> if t = [] then ''Misc'' else t)
      in case group_changes typeGroup of
           None \<Rightarrow> []
         | Some cs \<Rightarrow>
             if cs = [] then []
             else ''#### '' @ ty @ nl @ nl @ concat (map render_change cs) @ nl)"

text \<open>\<^verbatim>\<open>a || b\<close> on optional strings: the empty string is falsy.\<close>

definition js_or :: "string option \<Rightarrow> string option \<Rightarrow> string option" where
  "js_or a b = (case a of None \<Rightarrow> b | Some s \<Rightarrow> if s = [] then b else a)"

definition render_changeRecord :: "changeRecord \<Rightarrow> string" where
  "render_changeRecord r =
     (case js_or (record_url r) (record_link r) of
        None \<Rightarrow> []
      | Some recordUrl \<Rightarrow>
          (case js_or (record_title r) (record_summary r) of
             None \<Rightarrow> []
           | Some recordTitle \<Rightarrow>
               if recordUrl \<noteq> [] \<and> recordTitle \<noteq> []
               then ''* ['' @ recordTitle @ '']('' @ recordUrl @ '')'' @ nl
               else []))"

definition render_changeRecords :: "changeRecord list option \<Rightarrow> string" where
  "render_changeRecords changeRecords =
     (case changeRecords of
        None \<Rightarrow> []
      | Some rs \<Rightarrow>
          if rs = [] then []
          else ''#### Change Records'' @ nl @ nl @ concat (map render_changeRecord rs) @ nl)"

section \<open>Orchestrator: one package\<close>

definition changelog_url :: "string \<Rightarrow> string \<Rightarrow> string \<Rightarrow> string" where
  "changelog_url project mappedFrom mappedTo =
     ''https://api.drupal-mrn.dev/changelog?project='' @ project @ ''&from='' @ mappedFrom
       @ ''&to='' @ mappedTo @ ''&format=json''"

text \<open>
  \<^verbatim>\<open>data && data.changes && data.changes.length > 0\<close>: the body and its non-empty
  \<^verbatim>\<open>changes\<close>, or \<open>None\<close> when the test fails.
\<close>

definition nonempty_changes :: "data option \<Rightarrow> (data \<times> typeGroup list) option" where
  "nonempty_changes d =
     (case d of
        None \<Rightarrow> None
      | Some data \<Rightarrow>
          (case data_changes data of
             None \<Rightarrow> None
           | Some changes \<Rightarrow> if changes = [] then None else Some (data, changes)))"

text \<open>The template literals of the loop body, each under the name of what it builds.\<close>

definition fetching_message :: "package \<Rightarrow> string" where
  "fetching_message pkg =
     ''Fetching release notes for '' @ pkg_project pkg @ '' from '' @ pkg_from pkg
       @ '' to '' @ pkg_to pkg"

definition mapped_message :: "package \<Rightarrow> string \<Rightarrow> string \<Rightarrow> string" where
  "mapped_message pkg mappedFrom mappedTo =
     ''Mapped versions for '' @ pkg_project pkg @ '': '' @ pkg_from pkg @ '' '' @ arrow @ '' ''
       @ mappedFrom @ '', '' @ pkg_to pkg @ '' '' @ arrow @ '' '' @ mappedTo"

definition api_returned_message :: "package \<Rightarrow> response \<Rightarrow> string" where
  "api_returned_message pkg response =
     ''API returned '' @ string_of_nat (status response) @ '' for '' @ pkg_project pkg"

definition error_message :: "package \<Rightarrow> string \<Rightarrow> string" where
  "error_message pkg msg =
     ''Error fetching release notes for '' @ pkg_project pkg @ '': '' @ msg"

definition package_heading :: "package \<Rightarrow> string" where
  "package_heading pkg = ''### '' @ pkg_name pkg @ nl @ nl"

definition could_not_fetch :: "package \<Rightarrow> string" where
  "could_not_fetch pkg =
     ''_Could not fetch release notes ('' @ pkg_from pkg @ '' '' @ arrow @ '' '' @ pkg_to pkg
       @ '')_'' @ nl @ nl"

definition error_fetching :: "string \<Rightarrow> string" where
  "error_fetching msg = ''_Error fetching release notes: '' @ msg @ ''_'' @ nl @ nl"

definition releaseNotesUrl :: "package \<Rightarrow> string \<Rightarrow> string" where
  "releaseNotesUrl pkg mappedTo =
     ''https://www.drupal.org/project/'' @ pkg_project pkg @ ''/releases/'' @ mappedTo"

definition compareUrl :: "package \<Rightarrow> string \<Rightarrow> string \<Rightarrow> string" where
  "compareUrl pkg mappedFrom mappedTo =
     ''https://git.drupalcode.org/project/'' @ pkg_project pkg @ ''/-/compare/'' @ mappedFrom
       @ ''...'' @ mappedTo"

text \<open>The line of the versions with the compare link (line 126) and without (line 165).\<close>

definition versions_compare_line :: "package \<Rightarrow> string \<Rightarrow> string \<Rightarrow> string" where
  "versions_compare_line pkg notesUrl cmpUrl =
     ''**'' @ pkg_from pkg @ '' '' @ arrow @ '' ['' @ pkg_to pkg @ '']('' @ notesUrl
       @ '')** ([compare]('' @ cmpUrl @ ''))'' @ nl @ nl"

definition versions_line :: "package \<Rightarrow> string \<Rightarrow> string" where
  "versions_line pkg notesUrl =
     ''**'' @ pkg_from pkg @ '' '' @ arrow @ '' ['' @ pkg_to pkg @ '']('' @ notesUrl
       @ '')**'' @ nl @ nl"

definition no_release_notes :: string where
  "no_release_notes = ''_No release notes available_'' @ nl @ nl"

text \<open>The \<^verbatim>\<open>catch\<close> block of the loop body.\<close>

definition package_error :: "package \<Rightarrow> string \<Rightarrow> 'w \<Rightarrow> event list \<Rightarrow> 'w state \<Rightarrow> 'w state" where
  "package_error pkg msg w evs st =
     st\<lparr>world := w,
        events := evs @ [CoreError (error_message pkg msg)],
        releaseNotesSection := releaseNotesSection st
          @ package_heading pkg @ error_fetching msg\<rparr>"

text \<open>The body of the loop over \<^verbatim>\<open>drupalPackages\<close>.\<close>

definition process_package :: "'w io \<Rightarrow> package \<Rightarrow> 'w state \<Rightarrow> 'w state" where
  "process_package io pkg st =
     (let evs0 = events st @ [CoreInfo (fetching_message pkg)]
      in case fetchProjectTags io (pkg_project pkg) (world st, evs0) of (tags, w1, evs1) \<Rightarrow>
        (let mappedFrom = mapVersionToTag (pkg_from pkg) tags;
             mappedTo = mapVersionToTag (pkg_to pkg) tags;
             evs2 = (if mappedFrom \<noteq> pkg_from pkg \<or> mappedTo \<noteq> pkg_to pkg
                     then evs1 @ [CoreInfo (mapped_message pkg mappedFrom mappedTo)]
                     else evs1);
             apiUrl = changelog_url (pkg_project pkg) mappedFrom mappedTo
         in case fetch io apiUrl w1 of (r, w2) \<Rightarrow>
           (let evs3 = evs2 @ [FetchCall apiUrl] in
            case r of
              Inl msg \<Rightarrow> package_error pkg msg w2 evs3 st
            | Inr response \<Rightarrow>
                if \<not> ok response then
                  st\<lparr>world := w2,
                     events := evs3 @ [CoreWarning (api_returned_message pkg response)],
                     releaseNotesSection := releaseNotesSection st
                        @ package_heading pkg @ could_not_fetch pkg\<rparr>
                else (case json response of
                    Inl msg \<Rightarrow> package_error pkg msg w2 evs3 st
                  | Inr d \<Rightarrow>
                      (case nonempty_changes d of
                         Some (data, changes) \<Rightarrow>
                           st\<lparr>world := w2,
                              events := evs3,
                              releaseNotesSection := releaseNotesSection st
                                @ package_heading pkg
                                @ versions_compare_line pkg (releaseNotesUrl pkg mappedTo)
                                    (compareUrl pkg mappedFrom mappedTo)
                                @ concat (map render_typeGroup changes)
                                @ render_changeRecords (data_changeRecords data)
                                @ nl,
                              hasReleaseNotes := True\<rparr>
                       | None \<Rightarrow>
                           st\<lparr>world := w2,
                              events := evs3,
                              releaseNotesSection := releaseNotesSection st
                                @ package_heading pkg
                                @ versions_line pkg (releaseNotesUrl pkg mappedTo)
                                @ no_release_notes\<rparr>)))))"

text \<open>The loop over \<^verbatim>\<open>drupalPackages\<close>, in order.\<close>

fun process_packages :: "'w io \<Rightarrow> package list \<Rightarrow> 'w state \<Rightarrow> 'w state" where
  "process_packages io [] st = st"
| "process_packages io (pkg # pkgs) st = process_packages io pkgs (process_package io pkg st)"

section \<open>Orchestrator: the pull request\<close>

definition section_heading :: string where
  "section_heading = nl @ nl @ ''---'' @ nl @ nl @ ''## Drupal Release Notes'' @ nl @ nl"

definition initial_state :: "'w \<Rightarrow> 'w state" where
  "initial_state w =
     \<lparr>world = w, events = [], releaseNotesSection = section_heading, hasReleaseNotes = False\<rparr>"

text \<open>
  Lines 175 to 211 of \<^verbatim>\<open>run\<close>, after the loop: the check of the context, the read of the
  pull request and its update. An error thrown by one of the two calls reaches the outer
  \<^verbatim>\<open>catch\<close>, which reports its message with \<^verbatim>\<open>core.setFailed\<close>.
  \<^verbatim>\<open>github.getOctokit\<close> only builds the client of the two calls and is taken not to throw.
\<close>

definition update_pull_request :: "'w io \<Rightarrow> gh_context \<Rightarrow> 'w state \<Rightarrow> 'w \<times> event list" where
  "update_pull_request io ctx st =
     (let evs = (if \<not> hasReleaseNotes st
                 then events st @ [CoreInfo ''No release notes were retrieved from the API.'']
                 else events st);
          no_context = (world st, evs @ [CoreSetFailed
             ''This action must be run in the context of a pull request''])
      in case payload_pull_request ctx of
           None \<Rightarrow> no_context
         | Some pull \<Rightarrow>
             (case pr_number pull of
                None \<Rightarrow> no_context
              | Some n \<Rightarrow>
                  if n = 0 then no_context
                  else
                    (case pulls_get io (repo_owner ctx) (repo_repo ctx) n (world st) of
                       (got, w1) \<Rightarrow>
                       (let evs1 = evs @ [PullsGet (repo_owner ctx) (repo_repo ctx) n] in
                        case got of
                          Inl msg \<Rightarrow> (w1, evs1 @ [CoreSetFailed msg])
                        | Inr body \<Rightarrow>
                            if (case body of
                                  None \<Rightarrow> False
                                | Some b \<Rightarrow> b \<noteq> [] \<and> includes_str b ''## Drupal Release Notes'')
                            then (w1, evs1 @ [CoreInfo
                                    ''Release notes already present in PR description''])
                            else
                              (let newBody = (case body of None \<Rightarrow> [] | Some b \<Rightarrow> b)
                                     @ releaseNotesSection st
                               in case pulls_update io (repo_owner ctx) (repo_repo ctx) n
                                       newBody w1 of
                                    (updated, w2) \<Rightarrow>
                                    (let evs2 = evs1 @ [PullsUpdate (repo_owner ctx)
                                           (repo_repo ctx) n newBody] in
                                     case updated of
                                       Inl msg \<Rightarrow> (w2, evs2 @ [CoreSetFailed msg])
                                     | Inr u \<Rightarrow> (w2, evs2 @ [CoreInfo
                                         ''Successfully updated PR description with Drupal release notes''])))))))"

text \<open>\<^verbatim>\<open>run\<close>: the final world and the events of the run.\<close>

definition run :: "'w io \<Rightarrow> env \<Rightarrow> gh_context \<Rightarrow> 'w \<Rightarrow> 'w \<times> event list" where
  "run io e ctx w =
     (if (case GITHUB_TOKEN e of None \<Rightarrow> True | Some token \<Rightarrow> token = [])
      then (w, [CoreSetFailed ''GITHUB_TOKEN is required''])
      else if drupalPackages e = []
      then (w, [CoreInfo ''No drupal/ packages found in this PR''])
      else update_pull_request io ctx
             (process_packages io (drupalPackages e) (initial_state w)))"

section \<open>Vocabulary of the properties\<close>

text \<open>The calls that update the pull request, among the events of a run.\<close>

fun is_update :: "event \<Rightarrow> bool" where
  "is_update (PullsUpdate owner repo n body) = True"
| "is_update _ = False"

text \<open>
  The three blocks that stand for a package without release notes: the status was not a
  success, an error was thrown, or the change list was missing or empty.
\<close>

definition placeholder_block :: "package \<Rightarrow> string \<Rightarrow> bool" where
  "placeholder_block pkg b =
     (b = ''### '' @ pkg_name pkg @ nl @ nl @ ''_Could not fetch release notes (''
          @ pkg_from pkg @ '' '' @ arrow @ '' '' @ pkg_to pkg @ '')_'' @ nl @ nl
      \<or> (\<exists>msg. b = ''### '' @ pkg_name pkg @ nl @ nl @ ''_Error fetching release notes: ''
          @ msg @ ''_'' @ nl @ nl)
      \<or> (\<exists>mappedTo. b = ''### '' @ pkg_name pkg @ nl @ nl @ ''**'' @ pkg_from pkg @ '' ''
          @ arrow @ '' ['' @ pkg_to pkg @ ''](https://www.drupal.org/project/''
          @ pkg_project pkg @ ''/releases/'' @ mappedTo @ '')**'' @ nl @ nl
          @ ''_No release notes available_'' @ nl @ nl))"

text \<open>All the change entries of a changelog body, over its type groups.\<close>

definition change_entries :: "data option \<Rightarrow> change list" where
  "change_entries d =
     (case d of
        None \<Rightarrow> []
      | Some data \<Rightarrow>
          (case data_changes data of
             None \<Rightarrow> []
           | Some groups \<Rightarrow>
               concat (map (\<lambda>g. case group_changes g of None \<Rightarrow> [] | Some cs \<Rightarrow> cs) groups)))"

text \<open>
  The changelog fetch of one package, made in world \<open>w\<close>, retrieves no release notes: it
  throws, its status is no success, \<^verbatim>\<open>response.json()\<close> throws, or the body has no
  non-empty \<open>changes\<close>. The URL is built from the tags fetched just before, as in the loop.
\<close>

definition changelog_without_notes :: "'w io \<Rightarrow> package \<Rightarrow> 'w \<Rightarrow> bool" where
  "changelog_without_notes io pkg w =
     (case fetchProjectTags io (pkg_project pkg) (w, []) of (tags, w1, evs) \<Rightarrow>
        (case fst (fetch io (changelog_url (pkg_project pkg)
                     (mapVersionToTag (pkg_from pkg) tags)
                     (mapVersionToTag (pkg_to pkg) tags)) w1) of
           Inl msg \<Rightarrow> True
         | Inr response \<Rightarrow>
             \<not> ok response
             \<or> (case json response of Inl msg \<Rightarrow> True | Inr d \<Rightarrow> nonempty_changes d = None)))"

text \<open>The same for every package of a run, each in the world that the run has reached.\<close>

fun no_notes_retrieved :: "'w io \<Rightarrow> package list \<Rightarrow> 'w state \<Rightarrow> bool" where
  "no_notes_retrieved io [] st = True"
| "no_notes_retrieved io (pkg # pkgs) st =
     (changelog_without_notes io pkg (world st)
      \<and> no_notes_retrieved io pkgs (process_package io pkg st))"

section \<open>A world for examples\<close>

text \<open>
  A world without state: \<^verbatim>\<open>fetch\<close> answers by URL, the pull request has a fixed body and
  the update succeeds.
\<close>

definition test_io :: "(string \<Rightarrow> string + response) \<Rightarrow> string + string option \<Rightarrow> unit io" where
  "test_io responses pr =
     \<lparr>fetch = (\<lambda>url w. (responses url, w)),
      pulls_get = (\<lambda>owner repo n w. (pr, w)),
      pulls_update = (\<lambda>owner repo n body w. (Inr (), w))\<rparr>"

definition json_response :: "data option \<Rightarrow> response" where
  "json_response d = \<lparr>ok = True, status = 200, json = Inr d\<rparr>"

text \<open>The inputs of the examples: one update of \<open>drupal/token\<close> on pull request 123.\<close>

definition example_env :: "string \<Rightarrow> string \<Rightarrow> string \<Rightarrow> env" where
  "example_env names previous new =
     \<lparr>GITHUB_TOKEN = Some ''test-token'', DEPENDENCY_NAMES = Some names,
      PREVIOUS_VERSION = Some previous, NEW_VERSION = Some new\<rparr>"

definition example_context :: gh_context where
  "example_context =
     \<lparr>repo_owner = ''test-owner'', repo_repo = ''test-repo'',
      payload_pull_request = Some \<lparr>pr_number = Some 123\<rparr>\<rparr>"

definition token_package :: package where
  "token_package =
     \<lparr>pkg_name = ''drupal/token'', pkg_project = ''token'', pkg_from = ''1.38.0'',
      pkg_to = ''1.39.0''\<rparr>"

definition token_tags :: data where
  "token_tags =
     \<lparr>data_tags = Some [\<lparr>tag_name = ''8.x-1.37''\<rparr>, \<lparr>tag_name = ''8.x-1.38''\<rparr>,
        \<lparr>tag_name = ''8.x-1.39''\<rparr>],
      data_changes = None, data_changeRecords = None\<rparr>"

definition token_changelog :: data where
  "token_changelog =
     \<lparr>data_tags = None,
      data_changes = Some [\<lparr>group_type = Some ''Bug'',
        group_changes = Some [\<lparr>change_nid = Str ''12345'',
          change_link = Str ''https://www.drupal.org/i/12345'',
          change_summary = ''#12345: Fixed a bug''\<rparr>]\<rparr>],
      data_changeRecords = Some []\<rparr>"

definition not_found :: response where
  "not_found = \<lparr>ok = False, status = 404, json = Inl []\<rparr>"

text \<open>
  The project \<open>token\<close> has legacy tags; its changelog between them is the parameter.
\<close>

definition token_responses :: "data option \<Rightarrow> string \<Rightarrow> string + response" where
  "token_responses changelog url =
     (if url = ''https://api.drupal-mrn.dev/project?project=token''
      then Inr (json_response (Some token_tags))
      else if url = ''https://api.drupal-mrn.dev/changelog?project=token&from=8.x-1.38&to=8.x-1.39&format=json''
      then Inr (json_response changelog)
      else Inr not_found)"

text \<open>A world that records the bodies written to the pull request, in order.\<close>

definition recording_io ::
  "(string \<Rightarrow> string + response) \<Rightarrow> string + string option \<Rightarrow> (string list) io" where
  "recording_io responses pr =
     \<lparr>fetch = (\<lambda>url w. (responses url, w)),
      pulls_get = (\<lambda>owner repo n w. (pr, w)),
      pulls_update = (\<lambda>owner repo n body w. (Inr (), w @ [body]))\<rparr>"

text \<open>A changelog whose only type group has no change.\<close>

definition empty_group_changelog :: data where
  "empty_group_changelog =
     \<lparr>data_tags = None,
      data_changes = Some [\<lparr>group_type = Some ''Bug'', group_changes = Some []\<rparr>],
      data_changeRecords = Some []\<rparr>"

text \<open>
  An API that has release notes for \<open>token\<close> under the legacy tags only and no tag list.
\<close>

definition notes_elsewhere :: "string \<Rightarrow> string + response" where
  "notes_elsewhere url =
     (if url = ''https://api.drupal-mrn.dev/changelog?project=token&from=8.x-1.38&to=8.x-1.39&format=json''
      then Inr (json_response (Some token_changelog))
      else Inr not_found)"

section \<open>Properties of the string functions\<close>

text \<open>The fuel of \<open>trimStart\<close> is enough: nothing is left to drop.\<close>

lemma ws_len_Nil: "ws_len [] = 0"
  by (simp add: ws_len_def white_space_def)

lemma ws_len_rev_Nil: "ws_len_rev [] = 0"
  by (simp add: ws_len_rev_def white_space_def)

lemma drop_while_len_enough:
  "f [] = 0 \<Longrightarrow> length s \<le> n \<Longrightarrow> f (drop_while_len f n s) = 0"
proof (induction n arbitrary: s)
  case 0
  then show ?case by simp
next
  case (Suc n)
  show ?case
  proof (cases "f s = 0")
    case True
    then show ?thesis by simp
  next
    case False
    then have "length (drop (f s) s) \<le> n" using Suc.prems(2) by simp
    then show ?thesis using False Suc.IH [OF Suc.prems(1)] by simp
  qed
qed

lemma trimStart_done: "ws_len (trimStart s) = 0"
  by (simp add: trimStart_def drop_while_len_enough ws_len_Nil)

text \<open>\<open>includes_str\<close> is the search for a substring.\<close>

lemma includes_str_iff: "includes_str s p \<longleftrightarrow> (\<exists>a b. s = a @ p @ b)"
proof (induction s)
  case Nil
  then show ?case by simp
next
  case (Cons c cs)
  show ?case
  proof
    assume "includes_str (c # cs) p"
    then consider "prefix p (c # cs)" | "includes_str cs p" by auto
    then show "\<exists>a b. c # cs = a @ p @ b"
    proof cases
      case 1
      then obtain b where "c # cs = p @ b" by (auto simp: prefix_def)
      then have "c # cs = [] @ p @ b" by simp
      then show ?thesis by blast
    next
      case 2
      then obtain a b where "cs = a @ p @ b" using Cons.IH by blast
      then have "c # cs = (c # a) @ p @ b" by simp
      then show ?thesis by blast
    qed
  next
    assume "\<exists>a b. c # cs = a @ p @ b"
    then obtain a b where ab: "c # cs = a @ p @ b" by blast
    show "includes_str (c # cs) p"
    proof (cases a)
      case Nil
      then have "prefix p (c # cs)" using ab by (simp add: prefix_def)
      then show ?thesis by simp
    next
      case (Cons x a')
      then have "cs = a' @ p @ b" using ab by simp
      then show ?thesis using Cons.IH by auto
    qed
  qed
qed

section \<open>Properties of the Version Mapper\<close>

lemma dot_no_digit: "\<not> is_digit CHR ''.''"
  by (simp add: is_digit_def)

lemma takeWhile_digits_end:
  "list_all is_digit ds \<Longrightarrow> \<not> is_digit c \<Longrightarrow> takeWhile is_digit (ds @ c # r) = ds"
  by (induction ds) simp_all

lemma dropWhile_digits_end:
  "list_all is_digit ds \<Longrightarrow> \<not> is_digit c \<Longrightarrow> dropWhile is_digit (ds @ c # r) = c # r"
  by (induction ds) simp_all

lemma semverMatch_shape:
  assumes "semver_shape v major minor patch"
  shows "semverMatch v = Some (major, minor, patch)"
proof -
  from assms have d: "major \<noteq> []" "list_all is_digit major" "minor \<noteq> []"
    "list_all is_digit minor" "patch \<noteq> []" "list_all is_digit patch"
    and v: "v = major @ CHR ''.'' # minor @ CHR ''.'' # patch"
    by (simp_all add: semver_shape_def digits_def)
  show ?thesis
    unfolding semverMatch_def v
    by (simp add: takeWhile_digits_end dropWhile_digits_end dot_no_digit d Let_def)
qed

text \<open>Conversely, the pattern matches nothing but that shape.\<close>

lemma semverMatch_sound:
  "semverMatch v = Some (major, minor, patch) \<Longrightarrow> semver_shape v major minor patch"
proof -
  assume m: "semverMatch v = Some (major, minor, patch)"
  have v: "v = takeWhile is_digit v @ dropWhile is_digit v" by simp
  from m obtain r2 where r2: "dropWhile is_digit v = CHR ''.'' # r2"
      "major = takeWhile is_digit v" "major \<noteq> []"
    by (auto simp: semverMatch_def Let_def split: list.splits if_splits)
  from m r2 have p: "dropWhile is_digit r2 = CHR ''.'' # patch"
      "minor = takeWhile is_digit r2" "minor \<noteq> []" "patch \<noteq> []" "list_all is_digit patch"
    by (auto simp: semverMatch_def Let_def split: list.splits if_splits)
  have "r2 = minor @ CHR ''.'' # patch"
    using p(1,2) takeWhile_dropWhile_id [of is_digit r2] by simp
  then have "v = major @ ''.'' @ minor @ ''.'' @ patch"
    using r2(1,2) takeWhile_dropWhile_id [of is_digit v] by simp
  moreover have "list_all is_digit major" "list_all is_digit minor"
    using r2(2) p(2) by (auto simp: list_all_iff dest: set_takeWhileD)
  ultimately show ?thesis
    using r2(3) p(3,4,5) by (simp add: semver_shape_def digits_def)
qed

text \<open>
  C4. A version that is one of the tags is returned unchanged, whatever else the tag list
  holds: the exact match is tested first.
\<close>

theorem mapVersionToTag_exact: "v \<in> set T \<Longrightarrow> mapVersionToTag v T = v"
  by (simp add: mapVersionToTag_def)

theorem mapVersionToTag_exact_witness:
  "''1.38.0'' \<in> set [''8.x-1.38'', ''1.38.0''] \<and> ''8.x-1.38'' \<in> set [''8.x-1.38'', ''1.38.0'']
   \<and> mapVersionToTag ''1.38.0'' [''8.x-1.38'', ''1.38.0''] = ''1.38.0''"
  using mapVersionToTag_exact [of "''1.38.0''" "[''8.x-1.38'', ''1.38.0'']"] by simp

text \<open>
  C3. For a version of the shape \<open>MAJOR.MINOR.PATCH\<close> that is not a tag itself, the result is
  the legacy tag \<open>8.x-MAJOR.MINOR\<close> when that is a tag, and the version unchanged otherwise.
\<close>

theorem mapVersionToTag_semver:
  assumes "semver_shape v major minor patch" and "v \<notin> set T"
  shows "mapVersionToTag v T =
     (if ''8.x-'' @ major @ ''.'' @ minor \<in> set T then ''8.x-'' @ major @ ''.'' @ minor else v)"
  using assms(2) by (simp add: mapVersionToTag_def semverMatch_shape [OF assms(1)])

theorem mapVersionToTag_semver_witness:
  "semver_shape ''1.38.0'' ''1'' ''38'' ''0'' \<and> ''1.38.0'' \<notin> set [''8.x-1.37'', ''8.x-1.38'']
   \<and> mapVersionToTag ''1.38.0'' [''8.x-1.37'', ''8.x-1.38''] = ''8.x-1.38''"
proof -
  have s: "semver_shape ''1.38.0'' ''1'' ''38'' ''0''"
    by (simp add: semver_shape_def digits_def is_digit_def)
  have n: "''1.38.0'' \<notin> set [''8.x-1.37'', ''8.x-1.38'']" by simp
  show ?thesis using s n mapVersionToTag_semver [OF s n] by simp
qed

section \<open>Properties of the rendering and of the Tag Fetcher\<close>

lemma drop_while_len_stop: "f s = 0 \<Longrightarrow> drop_while_len f n s = s"
  by (cases n) simp_all

lemma ws_len_space: "ws_len (CHR '' '' # s) = 1"
  by (simp add: ws_len_def white_space_def)

lemma ws_len_colon: "ws_len (CHR '':'' # s) = 0"
  by (simp add: ws_len_def white_space_def)

lemma ws_len_b: "ws_len (CHR ''b'' # s) = 0"
  by (simp add: ws_len_def white_space_def)

lemma trimStart_space: "ws_len s = 0 \<Longrightarrow> trimStart (CHR '' '' # s) = s"
  by (simp add: trimStart_def ws_len_space drop_while_len_stop)

lemma match_bare:
  assumes "digits ds" "ws_len rest = 0"
  shows "summaryWithoutId (''#'' @ ds @ '': '' @ rest) = rest"
proof -
  from assms have d: "ds \<noteq> []" "list_all is_digit ds" by (simp_all add: digits_def)
  have c: "\<not> is_digit CHR '':''" by (simp add: is_digit_def)
  show ?thesis
    by (simp add: summaryWithoutId_def match_issue_prefix_def takeWhile_digits_end [OF d(2) c]
        dropWhile_digits_end [OF d(2) c] d(1) match_by_def ws_len_colon trimStart_space assms(2))
qed

lemma takeWhile_names:
  "CHR '':'' \<notin> set names \<Longrightarrow> takeWhile (\<lambda>c. c \<noteq> CHR '':'') (names @ CHR '':'' # r) = names"
  by (induction names) auto

lemma dropWhile_names:
  "CHR '':'' \<notin> set names \<Longrightarrow> dropWhile (\<lambda>c. c \<noteq> CHR '':'') (names @ CHR '':'' # r) = CHR '':'' # r"
  by (induction names) auto

lemma match_by_form:
  assumes "names \<noteq> []" "CHR '':'' \<notin> set names"
  shows "match_by ('' by '' @ names @ CHR '':'' # r) = Some r"
proof -
  have t: "trimStart (CHR '' '' # CHR ''b'' # CHR ''y'' # CHR '' '' # names @ CHR '':'' # r)
      = CHR ''b'' # CHR ''y'' # CHR '' '' # names @ CHR '':'' # r"
    by (simp add: trimStart_def ws_len_space ws_len_b drop_while_len_stop)
  have n: "takeWhile (\<lambda>c. c \<noteq> CHR '':'') (CHR '' '' # names @ CHR '':'' # r) = CHR '' '' # names"
    using takeWhile_names [OF assms(2)] by simp
  have dr: "dropWhile (\<lambda>c. c \<noteq> CHR '':'') (CHR '' '' # names @ CHR '':'' # r) = CHR '':'' # r"
    using dropWhile_names [OF assms(2)] by simp
  show ?thesis
    using assms(1)
    by (simp add: match_by_def ws_len_space t takeWhile_names [OF assms(2)]
        dropWhile_names [OF assms(2)])
qed

lemma match_with_by:
  assumes "digits ds" "names \<noteq> []" "CHR '':'' \<notin> set names" "ws_len rest = 0"
  shows "summaryWithoutId (''#'' @ ds @ '' by '' @ names @ '': '' @ rest) = rest"
proof -
  from assms have d: "ds \<noteq> []" "list_all is_digit ds" by (simp_all add: digits_def)
  have c: "\<not> is_digit CHR '' ''" by (simp add: is_digit_def)
  have m: "match_by (CHR '' '' # CHR ''b'' # CHR ''y'' # CHR '' '' # names @ CHR '':'' # CHR '' '' # rest) = Some (CHR '' '' # rest)"
    using match_by_form [OF assms(2,3), of "CHR '' '' # rest"] by simp
  show ?thesis
    by (simp add: summaryWithoutId_def match_issue_prefix_def takeWhile_digits_end [OF d(2) c]
        dropWhile_digits_end [OF d(2) c] d(1) m trimStart_space assms(4))
qed


lemma render_change_bare:
  assumes "digits ds" "ws_len rest = 0"
  shows "render_change \<lparr>change_nid = Str ds, change_link = Str l,
           change_summary = ''#'' @ ds @ '': '' @ rest\<rparr>
         = ''* [#'' @ ds @ '']('' @ l @ '')'' @ (if rest = [] then [] else '': '' @ rest) @ [CHR 0x0A]"
  using match_bare [OF assms] by (simp add: render_change_def nl_def)

lemma render_change_by:
  assumes "digits ds" "names \<noteq> []" "CHR '':'' \<notin> set names" "ws_len rest = 0"
  shows "render_change \<lparr>change_nid = Str ds, change_link = Str l,
           change_summary = ''#'' @ ds @ '' by '' @ names @ '': '' @ rest\<rparr>
         = ''* [#'' @ ds @ '']('' @ l @ '')'' @ (if rest = [] then [] else '': '' @ rest) @ [CHR 0x0A]"
  using match_with_by [OF assms] by (simp add: render_change_def nl_def)

lemma render_change_example:
  "render_change \<lparr>change_nid = Str ''12345'', change_link = Str ''link'',
      change_summary = ''#12345: Fixed a bug''\<rparr> = ''* [#12345](link): Fixed a bug'' @ [CHR 0x0A]"
  by code_simp

text \<open>
  C7. The change with summary \<open>#12345: Fixed a bug\<close> and nid \<open>12345\<close> is rendered as the line
  \<open>* [#12345](link): Fixed a bug\<close>. In general a leading \<open>#<digits>: \<close> or
  \<open>#<digits> by <names>: \<close> is removed from the summary before it is displayed (the rest
  of the summary not starting with white space, which the pattern would remove as well).
\<close>

theorem render_change_strips_issue_id:
  "render_change \<lparr>change_nid = Str ''12345'', change_link = Str ''link'',
      change_summary = ''#12345: Fixed a bug''\<rparr> = ''* [#12345](link): Fixed a bug'' @ [CHR 0x0A]
   \<and> (digits ds \<and> ws_len rest = 0 \<longrightarrow>
        render_change \<lparr>change_nid = Str ds, change_link = Str l,
           change_summary = ''#'' @ ds @ '': '' @ rest\<rparr>
         = ''* [#'' @ ds @ '']('' @ l @ '')'' @ (if rest = [] then [] else '': '' @ rest)
           @ [CHR 0x0A])
   \<and> (digits ds \<and> names \<noteq> [] \<and> CHR '':'' \<notin> set names \<and> ws_len rest = 0 \<longrightarrow>
        render_change \<lparr>change_nid = Str ds, change_link = Str l,
           change_summary = ''#'' @ ds @ '' by '' @ names @ '': '' @ rest\<rparr>
         = ''* [#'' @ ds @ '']('' @ l @ '')'' @ (if rest = [] then [] else '': '' @ rest)
           @ [CHR 0x0A])"
  using render_change_example render_change_bare render_change_by by blast

theorem render_change_strips_issue_id_witness:
  "digits ''3554196'' \<and> ws_len ''Fix the thing'' = 0 \<and> ''alice, bob'' \<noteq> []
   \<and> CHR '':'' \<notin> set ''alice, bob''
   \<and> render_change \<lparr>change_nid = Str ''3554196'', change_link = Str ''https://www.drupal.org/i/3554196'',
        change_summary = ''#3554196: Fix the thing''\<rparr>
      = ''* [#3554196](https://www.drupal.org/i/3554196): Fix the thing'' @ [CHR 0x0A]
   \<and> render_change \<lparr>change_nid = Str ''3554196'', change_link = Str ''https://www.drupal.org/i/3554196'',
        change_summary = ''#3554196 by alice, bob: Fix the thing''\<rparr>
      = ''* [#3554196](https://www.drupal.org/i/3554196): Fix the thing'' @ [CHR 0x0A]"
proof -
  have d: "digits ''3554196''" by (simp add: digits_def is_digit_def)
  have w: "ws_len ''Fix the thing'' = 0" by (simp add: ws_len_def white_space_def)
  have n: "''alice, bob'' \<noteq> []" "CHR '':'' \<notin> set ''alice, bob''" by simp_all
  show ?thesis
    using d w n
      render_change_strips_issue_id [of "''3554196''" "''Fix the thing''"
        "''https://www.drupal.org/i/3554196''" "''alice, bob''"]
    by simp
qed

text \<open>
  C1. A change whose nid is \<^verbatim>\<open>null\<close> should be rendered as its summary alone. The code
  renders the link all the same, with the text \<open>#null\<close>: this is the line it produces for
  the change of the test "should handle null nid without creating a link".
\<close>

theorem render_change_null_nid:
  "render_change \<lparr>change_nid = Null, change_link = Str [],
      change_summary = ''Update .cspell-project-words.txt file''\<rparr>
     = ''* [#null](): Update .cspell-project-words.txt file'' @ [CHR 0x0A]
   \<and> includes_str (render_change \<lparr>change_nid = Null, change_link = Str [],
      change_summary = ''Update .cspell-project-words.txt file''\<rparr>) ''[#null]''"
  by code_simp

text \<open>
  C5. \<^verbatim>\<open>fetchProjectTags\<close> returns the empty array on a status that is not a success, on an
  error thrown by \<^verbatim>\<open>fetch\<close> or by \<^verbatim>\<open>response.json()\<close>, and on a body without \<open>tags\<close>;
  whatever its \<^verbatim>\<open>try\<close> block throws, it returns the empty array.
\<close>

theorem fetchProjectTags_never_throws:
  "(fetch io (''https://api.drupal-mrn.dev/project?project='' @ project) w = (Inr response, w')
      \<and> \<not> ok response \<longrightarrow> fst (fetchProjectTags io project (w, evs)) = [])
   \<and> (fetch io (''https://api.drupal-mrn.dev/project?project='' @ project) w = (Inl msg, w')
      \<longrightarrow> fst (fetchProjectTags io project (w, evs)) = [])
   \<and> (fetch io (''https://api.drupal-mrn.dev/project?project='' @ project) w = (Inr response, w')
      \<and> ok response \<and> json response = Inl msg
      \<longrightarrow> fst (fetchProjectTags io project (w, evs)) = [])
   \<and> (fetch io (''https://api.drupal-mrn.dev/project?project='' @ project) w = (Inr response, w')
      \<and> ok response \<and> json response = Inr (Some d) \<and> data_tags d = None
      \<longrightarrow> fst (fetchProjectTags io project (w, evs)) = [])
   \<and> (fst (fetchProjectTags_try io project (w, evs)) = Inl msg
      \<longrightarrow> fst (fetchProjectTags io project (w, evs)) = [])"
  by (auto simp: fetchProjectTags_def fetchProjectTags_try_def tags_url_def Let_def
      split: prod.splits sum.splits option.splits)


theorem fetchProjectTags_never_throws_witness:
  "fst (fetchProjectTags (test_io (\<lambda>url. Inr \<lparr>ok = False, status = 404, json = Inl []\<rparr>)
          (Inr None)) ''token'' ((), [])) = []
   \<and> fst (fetchProjectTags (test_io (\<lambda>url. Inl ''Network error'') (Inr None))
          ''token'' ((), [])) = []
   \<and> fst (fetchProjectTags (test_io (\<lambda>url. Inr \<lparr>ok = True, status = 200,
          json = Inl ''Unexpected end of JSON input''\<rparr>) (Inr None)) ''token'' ((), [])) = []
   \<and> fst (fetchProjectTags (test_io (\<lambda>url. Inr (json_response
          (Some \<lparr>data_tags = None, data_changes = None, data_changeRecords = None\<rparr>)))
          (Inr None)) ''token'' ((), [])) = []"
  using
    fetchProjectTags_never_throws [of
      "test_io (\<lambda>url. Inr \<lparr>ok = False, status = 404, json = Inl []\<rparr>) (Inr None)"
      "''token''" "()" "\<lparr>ok = False, status = 404, json = Inl []\<rparr>" "()" "[]"]
    fetchProjectTags_never_throws [of
      "test_io (\<lambda>url. Inl ''Network error'') (Inr None)"
      "''token''" "()" _ "()" "[]" "''Network error''"]
    fetchProjectTags_never_throws [of
      "test_io (\<lambda>url. Inr \<lparr>ok = True, status = 200,
          json = Inl ''Unexpected end of JSON input''\<rparr>) (Inr None)"
      "''token''" "()" "\<lparr>ok = True, status = 200, json = Inl ''Unexpected end of JSON input''\<rparr>"
      "()" "[]" "''Unexpected end of JSON input''"]
    fetchProjectTags_never_throws [of
      "test_io (\<lambda>url. Inr (json_response
          (Some \<lparr>data_tags = None, data_changes = None, data_changeRecords = None\<rparr>))) (Inr None)"
      "''token''" "()" "json_response
          (Some \<lparr>data_tags = None, data_changes = None, data_changeRecords = None\<rparr>)"
      "()" "[]" _ "\<lparr>data_tags = None, data_changes = None, data_changeRecords = None\<rparr>"]
  by (simp add: test_io_def json_response_def)

section \<open>Properties of the Orchestrator\<close>

lemma fetchProjectTags_updates:
  "fetchProjectTags io p (w, evs) = (tags, w1, evs1) \<Longrightarrow>
     filter is_update evs1 = filter is_update evs"
  by (auto simp: fetchProjectTags_def fetchProjectTags_try_def Let_def
      split: prod.splits sum.splits option.splits if_splits)

lemma fetchProjectTags_events:
  "fst (fetchProjectTags io p (w, evs)) = fst (fetchProjectTags io p (w, evs'))
   \<and> fst (snd (fetchProjectTags io p (w, evs))) = fst (snd (fetchProjectTags io p (w, evs')))"
  by (auto simp: fetchProjectTags_def fetchProjectTags_try_def Let_def
      split: prod.splits sum.splits option.splits if_splits)


lemma placeholder_could_not: "placeholder_block pkg (package_heading pkg @ could_not_fetch pkg)"
  by (simp add: placeholder_block_def package_heading_def could_not_fetch_def)

lemma placeholder_error: "placeholder_block pkg (package_heading pkg @ error_fetching msg)"
  by (simp add: placeholder_block_def package_heading_def error_fetching_def)

lemma placeholder_no_notes:
  "placeholder_block pkg
     (package_heading pkg @ versions_line pkg (releaseNotesUrl pkg mappedTo) @ no_release_notes)"
  by (simp add: placeholder_block_def package_heading_def versions_line_def releaseNotesUrl_def
      no_release_notes_def)

lemma process_package_shape:
  "\<exists>w evs block flag.
     process_package io pkg st =
       \<lparr>world = w, events = evs, releaseNotesSection = releaseNotesSection st @ block,
        hasReleaseNotes = (hasReleaseNotes st \<or> flag)\<rparr>
     \<and> filter is_update evs = filter is_update (events st)
     \<and> (\<not> flag \<longrightarrow> placeholder_block pkg block)
     \<and> (flag \<longrightarrow> (\<exists>url w0 response w' d.
           fetch io url w0 = (Inr response, w') \<and> ok response \<and> json response = Inr d
           \<and> nonempty_changes d \<noteq> None))"
proof -
  obtain tags w1 evs1 where
    t: "fetchProjectTags io (pkg_project pkg)
          (world st, events st @ [CoreInfo (fetching_message pkg)]) = (tags, w1, evs1)"
    by (metis prod_cases3)
  define mappedFrom where "mappedFrom = mapVersionToTag (pkg_from pkg) tags"
  define mappedTo where "mappedTo = mapVersionToTag (pkg_to pkg) tags"
  define evs3 where "evs3 =
    (if mappedFrom \<noteq> pkg_from pkg \<or> mappedTo \<noteq> pkg_to pkg
     then evs1 @ [CoreInfo (mapped_message pkg mappedFrom mappedTo)] else evs1)
    @ [FetchCall (changelog_url (pkg_project pkg) mappedFrom mappedTo)]"
  obtain r w2 where
    f: "fetch io (changelog_url (pkg_project pkg) mappedFrom mappedTo) w1 = (r, w2)"
    by (metis surj_pair)
  have u: "filter is_update evs3 = filter is_update (events st)"
    using fetchProjectTags_updates [OF t] by (simp add: evs3_def)
  have pp: "process_package io pkg st =
    (case r of
       Inl msg \<Rightarrow> package_error pkg msg w2 evs3 st
     | Inr response \<Rightarrow>
         if \<not> ok response then
           st\<lparr>world := w2,
              events := evs3 @ [CoreWarning (api_returned_message pkg response)],
              releaseNotesSection := releaseNotesSection st
                 @ package_heading pkg @ could_not_fetch pkg\<rparr>
         else (case json response of
             Inl msg \<Rightarrow> package_error pkg msg w2 evs3 st
           | Inr d \<Rightarrow>
               (case nonempty_changes d of
                  Some (data, changes) \<Rightarrow>
                    st\<lparr>world := w2,
                       events := evs3,
                       releaseNotesSection := releaseNotesSection st
                         @ package_heading pkg
                         @ versions_compare_line pkg (releaseNotesUrl pkg mappedTo)
                             (compareUrl pkg mappedFrom mappedTo)
                         @ concat (map render_typeGroup changes)
                         @ render_changeRecords (data_changeRecords data)
                         @ nl,
                       hasReleaseNotes := True\<rparr>
                | None \<Rightarrow>
                    st\<lparr>world := w2,
                       events := evs3,
                       releaseNotesSection := releaseNotesSection st
                         @ package_heading pkg
                         @ versions_line pkg (releaseNotesUrl pkg mappedTo)
                         @ no_release_notes\<rparr>)))"
    unfolding process_package_def Let_def t prod.case
      mappedFrom_def [symmetric] mappedTo_def [symmetric] f evs3_def [symmetric] ..
  have err: "\<exists>w evs block flag.
      package_error pkg msg w2 evs3 st =
       \<lparr>world = w, events = evs, releaseNotesSection = releaseNotesSection st @ block,
        hasReleaseNotes = (hasReleaseNotes st \<or> flag)\<rparr>
     \<and> filter is_update evs = filter is_update (events st)
     \<and> (\<not> flag \<longrightarrow> placeholder_block pkg block)
     \<and> (flag \<longrightarrow> (\<exists>url w0 response w' d.
           fetch io url w0 = (Inr response, w') \<and> ok response \<and> json response = Inr d
           \<and> nonempty_changes d \<noteq> None))" for msg
    by (rule exI [of _ w2], rule exI [of _ "evs3 @ [CoreError (error_message pkg msg)]"],
        rule exI [of _ "package_heading pkg @ error_fetching msg"], rule exI [of _ False])
      (simp add: package_error_def u placeholder_error)
  show ?thesis
  proof (cases r)
    case (Inl msg)
    then show ?thesis using err [of msg] by (simp add: pp)
  next
    case (Inr response)
    show ?thesis
    proof (cases "ok response")
      case False
      have "process_package io pkg st =
          \<lparr>world = w2, events = evs3 @ [CoreWarning (api_returned_message pkg response)],
           releaseNotesSection = releaseNotesSection st
             @ (package_heading pkg @ could_not_fetch pkg),
           hasReleaseNotes = (hasReleaseNotes st \<or> False)\<rparr>"
        using Inr False by (simp add: pp)
      then show ?thesis using u placeholder_could_not by fastforce
    next
      case True
      show ?thesis
      proof (cases "json response")
        case (Inl msg)
        then show ?thesis using err [of msg] Inr True by (simp add: pp)
      next
        case d: (Inr d)
        show ?thesis
        proof (cases "nonempty_changes d")
          case None
          have "process_package io pkg st =
              \<lparr>world = w2, events = evs3,
               releaseNotesSection = releaseNotesSection st
                 @ (package_heading pkg @ versions_line pkg (releaseNotesUrl pkg mappedTo)
                    @ no_release_notes),
               hasReleaseNotes = (hasReleaseNotes st \<or> False)\<rparr>"
            using Inr True d None by (simp add: pp)
          then show ?thesis using u placeholder_no_notes by fastforce
        next
          case (Some dc)
          obtain data changes where dc: "dc = (data, changes)" by (cases dc)
          have "process_package io pkg st =
              \<lparr>world = w2, events = evs3,
               releaseNotesSection = releaseNotesSection st
                 @ (package_heading pkg
                    @ versions_compare_line pkg (releaseNotesUrl pkg mappedTo)
                             (compareUrl pkg mappedFrom mappedTo)
                    @ concat (map render_typeGroup changes)
                    @ render_changeRecords (data_changeRecords data) @ nl),
               hasReleaseNotes = (hasReleaseNotes st \<or> True)\<rparr>"
            using Inr True d Some dc by (simp add: pp)
          moreover have "\<exists>url w0 response w' d.
              fetch io url w0 = (Inr response, w') \<and> ok response \<and> json response = Inr d
              \<and> nonempty_changes d \<noteq> None"
            using f Inr True d Some by blast
          ultimately show ?thesis using u by fastforce
        qed
      qed
    qed
  qed
qed

lemma process_package_updates:
  "filter is_update (events (process_package io pkg st)) = filter is_update (events st)"
  using process_package_shape [of io pkg st] by auto

lemma process_package_appends:
  "\<exists>x. releaseNotesSection (process_package io pkg st) = releaseNotesSection st @ x"
  using process_package_shape [of io pkg st] by auto

lemma process_package_keeps_flag:
  "hasReleaseNotes st \<Longrightarrow> hasReleaseNotes (process_package io pkg st)"
  using process_package_shape [of io pkg st] by auto

lemma process_package_sets_flag:
  "hasReleaseNotes (process_package io pkg st) \<Longrightarrow> \<not> hasReleaseNotes st \<Longrightarrow>
     \<exists>url w0 response w' d.
        fetch io url w0 = (Inr response, w') \<and> ok response \<and> json response = Inr d
        \<and> nonempty_changes d \<noteq> None"
  using process_package_shape [of io pkg st] by auto

lemma process_package_placeholder:
  "\<not> hasReleaseNotes (process_package io pkg st) \<Longrightarrow>
     \<exists>b. placeholder_block pkg b
       \<and> releaseNotesSection (process_package io pkg st) = releaseNotesSection st @ b"
  using process_package_shape [of io pkg st] by auto


lemma process_packages_updates:
  "filter is_update (events (process_packages io pkgs st)) = filter is_update (events st)"
  by (induction pkgs arbitrary: st) (simp_all add: process_package_updates)

lemma process_packages_appends:
  "\<exists>x. releaseNotesSection (process_packages io pkgs st) = releaseNotesSection st @ x"
proof (induction pkgs arbitrary: st)
  case Nil
  then show ?case by simp
next
  case (Cons pkg pkgs)
  obtain x where x: "releaseNotesSection (process_package io pkg st) = releaseNotesSection st @ x"
    using process_package_appends by blast
  obtain y where "releaseNotesSection (process_packages io pkgs (process_package io pkg st))
      = releaseNotesSection (process_package io pkg st) @ y"
    using Cons.IH by blast
  then show ?case by (simp add: x)
qed

lemma process_packages_keeps_flag:
  "hasReleaseNotes st \<Longrightarrow> hasReleaseNotes (process_packages io pkgs st)"
  by (induction pkgs arbitrary: st) (simp_all add: process_package_keeps_flag)

lemma process_packages_placeholders:
  "\<not> hasReleaseNotes (process_packages io pkgs st) \<Longrightarrow>
     \<exists>blocks. list_all2 placeholder_block pkgs blocks
       \<and> releaseNotesSection (process_packages io pkgs st)
           = releaseNotesSection st @ concat blocks"
proof (induction pkgs arbitrary: st)
  case Nil
  then show ?case by simp
next
  case (Cons pkg pkgs)
  let ?st = "process_package io pkg st"
  from Cons.prems have n: "\<not> hasReleaseNotes (process_packages io pkgs ?st)" by simp
  then have "\<not> hasReleaseNotes ?st" using process_packages_keeps_flag by blast
  then obtain b where b: "placeholder_block pkg b"
      "releaseNotesSection ?st = releaseNotesSection st @ b"
    using process_package_placeholder by blast
  from Cons.IH [OF n] obtain blocks where bs: "list_all2 placeholder_block pkgs blocks"
      "releaseNotesSection (process_packages io pkgs ?st) = releaseNotesSection ?st @ concat blocks"
    by blast
  have "list_all2 placeholder_block (pkg # pkgs) (b # blocks)" using b(1) bs(1) by simp
  moreover have "releaseNotesSection (process_packages io (pkg # pkgs) st)
      = releaseNotesSection st @ concat (b # blocks)"
    using b(2) bs(2) by simp
  ultimately show ?case by blast
qed

lemma includes_str_append: "includes_str (a @ p @ b) p"
proof (induction a)
  case Nil
  have "prefix p (p @ b)" by simp
  then show ?case by (cases "p @ b") auto
next
  case (Cons c a)
  then show ?case by simp
qed

lemma includes_str_not_empty: "includes_str b (c # p) \<Longrightarrow> b \<noteq> []"
  by auto


lemma update_pull_request_updates:
  "filter is_update (snd (update_pull_request io ctx st)) = filter is_update (events st)
   \<or> (\<exists>owner repo n body. filter is_update (snd (update_pull_request io ctx st))
         = filter is_update (events st) @ [PullsUpdate owner repo n (body @ releaseNotesSection st)])"
proof (cases "payload_pull_request ctx")
  case None
  then show ?thesis by (simp add: update_pull_request_def)
next
  case (Some pull)
  show ?thesis
  proof (cases "pr_number pull")
    case None
    then show ?thesis using Some by (simp add: update_pull_request_def)
  next
    case n: (Some n)
    show ?thesis
    proof (cases "n = 0")
      case True
      then show ?thesis using Some n by (simp add: update_pull_request_def)
    next
      case False
      obtain got w1 where g: "pulls_get io (repo_owner ctx) (repo_repo ctx) n (world st) = (got, w1)"
        by (metis surj_pair)
      show ?thesis
      proof (cases got)
        case (Inl msg)
        then show ?thesis using Some n False g by (simp add: update_pull_request_def)
      next
        case (Inr body)
        obtain updated w2 where u: "pulls_update io (repo_owner ctx) (repo_repo ctx) n
            ((case body of None \<Rightarrow> [] | Some b \<Rightarrow> b) @ releaseNotesSection st) w1 = (updated, w2)"
          by (metis surj_pair)
        show ?thesis
          using Some n False g Inr u
          by (cases updated) (auto simp: update_pull_request_def Let_def)
      qed
    qed
  qed
qed


lemma process_packages_flag_origin:
  "hasReleaseNotes (process_packages io pkgs st) \<Longrightarrow> \<not> hasReleaseNotes st \<Longrightarrow>
     \<exists>url w0 response w' d.
        fetch io url w0 = (Inr response, w') \<and> ok response \<and> json response = Inr d
        \<and> nonempty_changes d \<noteq> None"
proof (induction pkgs arbitrary: st)
  case Nil
  then show ?case by simp
next
  case (Cons pkg pkgs)
  show ?case
  proof (cases "hasReleaseNotes (process_package io pkg st)")
    case True
    then show ?thesis using Cons.prems(2) process_package_sets_flag by blast
  next
    case False
    then show ?thesis using Cons.IH Cons.prems(1) by simp
  qed
qed

lemma initial_state_simps:
  "events (initial_state w) = []"
  "hasReleaseNotes (initial_state w) = False"
  "releaseNotesSection (initial_state w) = section_heading"
  "world (initial_state w) = w"
  by (simp_all add: initial_state_def)

lemma run_reaches_pull_request:
  assumes "GITHUB_TOKEN e = Some token" and "token \<noteq> []" and "drupalPackages e \<noteq> []"
  shows "run io e ctx w =
     update_pull_request io ctx (process_packages io (drupalPackages e) (initial_state w))"
  using assms by (simp add: run_def)

lemma run_updates:
  "filter is_update (snd (run io e ctx w)) = []
   \<or> (\<exists>owner repo n body x. filter is_update (snd (run io e ctx w))
         = [PullsUpdate owner repo n (body @ section_heading @ x)])"
proof (cases "(case GITHUB_TOKEN e of None \<Rightarrow> True | Some token \<Rightarrow> token = [])
    \<or> drupalPackages e = []")
  case True
  then show ?thesis by (auto simp: run_def)
next
  case False
  let ?st = "process_packages io (drupalPackages e) (initial_state w)"
  have r: "run io e ctx w = update_pull_request io ctx ?st"
    using False by (simp add: run_def)
  have ev: "filter is_update (events ?st) = []"
    by (simp add: process_packages_updates initial_state_simps)
  obtain x where x: "releaseNotesSection ?st = section_heading @ x"
    using process_packages_appends [of io "drupalPackages e" "initial_state w"]
    by (auto simp: initial_state_simps)
  from update_pull_request_updates [of io ctx ?st] consider
      (none) "filter is_update (snd (update_pull_request io ctx ?st)) = []"
    | (one) owner repo n body where "filter is_update (snd (update_pull_request io ctx ?st))
          = [PullsUpdate owner repo n (body @ section_heading @ x)]"
    by (auto simp: ev x)
  then show ?thesis
  proof cases
    case none
    then show ?thesis by (simp add: r)
  next
    case one
    then have "filter is_update (snd (run io e ctx w))
        = [PullsUpdate owner repo n (body @ section_heading @ x)]"
      by (simp add: r)
    then show ?thesis by blast
  qed
qed

lemma section_heading_marker: "includes_str (body @ section_heading @ x) ''## Drupal Release Notes''"
proof -
  have "body @ section_heading @ x
      = (body @ nl @ nl @ ''---'' @ nl @ nl) @ ''## Drupal Release Notes'' @ (nl @ nl @ x)"
    by (simp add: section_heading_def)
  then show ?thesis using includes_str_append by metis
qed

lemma update_pull_request_marked:
  assumes "payload_pull_request ctx = Some pull" and "pr_number pull = Some n" and "n \<noteq> 0"
    and "pulls_get io (repo_owner ctx) (repo_repo ctx) n (world st) = (Inr (Some body), w1)"
    and "includes_str body ''## Drupal Release Notes''"
  shows "update_pull_request io ctx st =
     (w1, (if \<not> hasReleaseNotes st
           then events st @ [CoreInfo ''No release notes were retrieved from the API.'']
           else events st)
          @ [PullsGet (repo_owner ctx) (repo_repo ctx) n,
             CoreInfo ''Release notes already present in PR description''])"
proof -
  have "body \<noteq> []" using assms(5) by auto
  then show ?thesis using assms by (simp add: update_pull_request_def)
qed

lemma update_pull_request_unmarked:
  assumes "payload_pull_request ctx = Some pull" and "pr_number pull = Some n" and "n \<noteq> 0"
    and "pulls_get io (repo_owner ctx) (repo_repo ctx) n (world st) = (Inr body, w1)"
    and "\<forall>b. body = Some b \<longrightarrow> \<not> includes_str b ''## Drupal Release Notes''"
  shows "filter is_update (snd (update_pull_request io ctx st)) =
     filter is_update (events st) @ [PullsUpdate (repo_owner ctx) (repo_repo ctx) n
        ((case body of None \<Rightarrow> [] | Some b \<Rightarrow> b) @ releaseNotesSection st)]"
proof -
  obtain updated w2 where u: "pulls_update io (repo_owner ctx) (repo_repo ctx) n
      ((case body of None \<Rightarrow> [] | Some b \<Rightarrow> b) @ releaseNotesSection st) w1 = (updated, w2)"
    by (metis surj_pair)
  have m: "\<not> (case body of None \<Rightarrow> False
      | Some b \<Rightarrow> b \<noteq> [] \<and> includes_str b ''## Drupal Release Notes'')"
    using assms(5) by (cases body) simp_all
  show ?thesis
    using assms(1-4) u m
    by (cases updated) (simp_all add: update_pull_request_def Let_def)
qed

text \<open>
  C2. When the body of the pull request that the run has read contains the heading
  \<open>## Drupal Release Notes\<close>, the run makes no update call and returns after the message
  that the release notes are already present. Every body that a run writes contains that
  heading, and a run makes at most one update call: a description that a run has extended is
  not extended again.
\<close>

theorem marker_prevents_update:
  assumes "GITHUB_TOKEN e = Some token" and "token \<noteq> []" and "drupalPackages e \<noteq> []"
    and "st = process_packages io (drupalPackages e) (initial_state w)"
    and "payload_pull_request ctx = Some pull" and "pr_number pull = Some n" and "n \<noteq> 0"
    and "pulls_get io (repo_owner ctx) (repo_repo ctx) n (world st) = (Inr (Some body), w1)"
    and "includes_str body ''## Drupal Release Notes''"
  shows "filter is_update (snd (run io e ctx w)) = []
     \<and> fst (run io e ctx w) = w1
     \<and> last (snd (run io e ctx w)) = CoreInfo ''Release notes already present in PR description''
     \<and> (\<forall>io' e' ctx' w' owner repo m newBody.
           PullsUpdate owner repo m newBody \<in> set (snd (run io' e' ctx' (w'::'w)))
           \<longrightarrow> includes_str newBody ''## Drupal Release Notes'')
     \<and> (\<forall>io' e' ctx' w'. length (filter is_update (snd (run io' e' ctx' (w'::'w)))) \<le> 1)"
proof -
  have r: "run io e ctx w = update_pull_request io ctx st"
    using run_reaches_pull_request [OF assms(1-3)] assms(4) by simp
  have ev: "filter is_update (events st) = []"
    by (simp add: assms(4) process_packages_updates initial_state_simps)
  have 1: "filter is_update (snd (run io e ctx w)) = []"
    using ev by (simp add: r update_pull_request_marked [OF assms(5-9)])
  have 2: "fst (run io e ctx w) = w1"
    by (simp add: r update_pull_request_marked [OF assms(5-9)])
  have 3: "last (snd (run io e ctx w))
      = CoreInfo ''Release notes already present in PR description''"
    by (simp add: r update_pull_request_marked [OF assms(5-9)])
  have 4: "includes_str newBody ''## Drupal Release Notes''"
    if "PullsUpdate owner repo m newBody \<in> set (snd (run io' e' ctx' w'))"
    for io' e' ctx' and w' :: 'w and owner repo m newBody
  proof -
    from that have mem: "PullsUpdate owner repo m newBody
        \<in> set (filter is_update (snd (run io' e' ctx' w')))" by simp
    from run_updates [of io' e' ctx' w'] consider
        (none) "filter is_update (snd (run io' e' ctx' w')) = []"
      | (one) owner' repo' n' b x where "filter is_update (snd (run io' e' ctx' w'))
            = [PullsUpdate owner' repo' n' (b @ section_heading @ x)]"
      by blast
    then show ?thesis
    proof cases
      case none
      then show ?thesis using mem by simp
    next
      case one
      then have "newBody = b @ section_heading @ x" using mem by simp
      then show ?thesis by (simp add: section_heading_marker)
    qed
  qed
  have 5: "length (filter is_update (snd (run io' e' ctx' w'))) \<le> 1"
    for io' e' ctx' and w' :: 'w
    using run_updates [of io' e' ctx' w'] by auto
  show ?thesis using 1 2 3 4 5 by blast
qed

lemma process_package_flag:
  "hasReleaseNotes (process_package io pkg st)
     = (hasReleaseNotes st \<or> \<not> changelog_without_notes io pkg (world st))"
proof -
  let ?evs0 = "events st @ [CoreInfo (fetching_message pkg)]"
  obtain tags w1 evs1 where
    t: "fetchProjectTags io (pkg_project pkg) (world st, ?evs0) = (tags, w1, evs1)"
    by (metis prod_cases3)
  obtain tags' w1' evs1' where
    t0: "fetchProjectTags io (pkg_project pkg) (world st, []) = (tags', w1', evs1')"
    by (metis prod_cases3)
  have same: "tags' = tags" "w1' = w1"
    using fetchProjectTags_events [of io "pkg_project pkg" "world st" ?evs0 "[]"] t t0
    by simp_all
  obtain r w2 where
    f: "fetch io (changelog_url (pkg_project pkg) (mapVersionToTag (pkg_from pkg) tags)
          (mapVersionToTag (pkg_to pkg) tags)) w1 = (r, w2)"
    by (metis surj_pair)
  have c: "changelog_without_notes io pkg (world st) =
      (case r of
         Inl msg \<Rightarrow> True
       | Inr response \<Rightarrow>
           \<not> ok response
           \<or> (case json response of Inl msg \<Rightarrow> True | Inr d \<Rightarrow> nonempty_changes d = None))"
    using t0 same f by (simp add: changelog_without_notes_def)
  show ?thesis
  proof (cases r)
    case (Inl msg)
    then show ?thesis by (simp add: c process_package_def t f Let_def package_error_def)
  next
    case (Inr response)
    show ?thesis
    proof (cases "ok response")
      case False
      then show ?thesis using Inr by (simp add: c process_package_def t f Let_def)
    next
      case True
      show ?thesis
      proof (cases "json response")
        case (Inl msg)
        then show ?thesis
          using Inr True by (simp add: c process_package_def t f Let_def package_error_def)
      next
        case d: (Inr d)
        show ?thesis
        proof (cases "nonempty_changes d")
          case None
          then show ?thesis
            using Inr True d by (simp add: c process_package_def t f Let_def)
        next
          case (Some dc)
          then show ?thesis
            using Inr True d
            by (cases dc) (simp add: c process_package_def t f Let_def)
        qed
      qed
    qed
  qed
qed

lemma process_packages_flag:
  "hasReleaseNotes (process_packages io pkgs st)
     = (hasReleaseNotes st \<or> \<not> no_notes_retrieved io pkgs st)"
proof (induction pkgs arbitrary: st)
  case Nil
  then show ?case by simp
next
  case (Cons pkg pkgs)
  show ?case
    using Cons.IH [of "process_package io pkg st"] process_packages_keeps_flag
    by (auto simp: process_package_flag)
qed

lemma update_pull_request_unmarked_result:
  assumes "payload_pull_request ctx = Some pull" and "pr_number pull = Some n" and "n \<noteq> 0"
    and "pulls_get io (repo_owner ctx) (repo_repo ctx) n (world st) = (Inr body, w1)"
    and "\<forall>b. body = Some b \<longrightarrow> \<not> includes_str b ''## Drupal Release Notes''"
  shows "fst (update_pull_request io ctx st) =
     snd (pulls_update io (repo_owner ctx) (repo_repo ctx) n
        ((case body of None \<Rightarrow> [] | Some b \<Rightarrow> b) @ releaseNotesSection st) w1)"
proof -
  obtain updated w2 where u: "pulls_update io (repo_owner ctx) (repo_repo ctx) n
      ((case body of None \<Rightarrow> [] | Some b \<Rightarrow> b) @ releaseNotesSection st) w1 = (updated, w2)"
    by (metis surj_pair)
  have m: "\<not> (case body of None \<Rightarrow> False
      | Some b \<Rightarrow> b \<noteq> [] \<and> includes_str b ''## Drupal Release Notes'')"
    using assms(5) by (cases body) simp_all
  show ?thesis
    using assms(1-4) u m
    by (cases updated) (simp_all add: update_pull_request_def Let_def)
qed

lemma update_pull_request_unmarked_events:
  assumes "payload_pull_request ctx = Some pull" and "pr_number pull = Some n" and "n \<noteq> 0"
    and "pulls_get io (repo_owner ctx) (repo_repo ctx) n (world st) = (Inr body, w1)"
    and "\<forall>b. body = Some b \<longrightarrow> \<not> includes_str b ''## Drupal Release Notes''"
  shows "CoreInfo ''No release notes were retrieved from the API.''
           \<in> set (snd (update_pull_request io ctx st)) \<or> hasReleaseNotes st"
proof -
  obtain updated w2 where u: "pulls_update io (repo_owner ctx) (repo_repo ctx) n
      ((case body of None \<Rightarrow> [] | Some b \<Rightarrow> b) @ releaseNotesSection st) w1 = (updated, w2)"
    by (metis surj_pair)
  have m: "\<not> (case body of None \<Rightarrow> False
      | Some b \<Rightarrow> b \<noteq> [] \<and> includes_str b ''## Drupal Release Notes'')"
    using assms(5) by (cases body) simp_all
  show ?thesis
    using assms(1-4) u m
    by (cases updated) (simp_all add: update_pull_request_def Let_def)
qed


text \<open>
  C9. When the pull request that the run has read has the body \<^verbatim>\<open>null\<close>, the run applies
  the update call to the world left by the read, and the body it passes is the release notes
  section itself, which starts with the fixed heading: the missing body counts as the empty
  string and not as the text \<open>null\<close>. This holds for every outcome of the packages, so also
  when one of them was rendered with a change.
\<close>

theorem null_body_update:
  assumes "GITHUB_TOKEN e = Some token" and "token \<noteq> []" and "drupalPackages e \<noteq> []"
    and "st = process_packages io (drupalPackages e) (initial_state w)"
    and "payload_pull_request ctx = Some pull" and "pr_number pull = Some n" and "n \<noteq> 0"
    and "pulls_get io (repo_owner ctx) (repo_repo ctx) n (world st) = (Inr None, w1)"
  shows "fst (run io e ctx w)
       = snd (pulls_update io (repo_owner ctx) (repo_repo ctx) n (releaseNotesSection st) w1)
     \<and> filter is_update (snd (run io e ctx w))
       = [PullsUpdate (repo_owner ctx) (repo_repo ctx) n (releaseNotesSection st)]
     \<and> prefix (nl @ nl @ ''---'' @ nl @ nl @ ''## Drupal Release Notes'' @ nl @ nl)
         (releaseNotesSection st)
     \<and> \<not> prefix ''null'' (releaseNotesSection st)"
proof -
  have r: "run io e ctx w = update_pull_request io ctx st"
    using run_reaches_pull_request [OF assms(1-3)] assms(4) by simp
  have ev: "filter is_update (events st) = []"
    by (simp add: assms(4) process_packages_updates initial_state_simps)
  obtain x where x: "releaseNotesSection st = section_heading @ x"
    using process_packages_appends [of io "drupalPackages e" "initial_state w"]
    by (auto simp: assms(4) initial_state_simps)
  have 0: "fst (run io e ctx w)
       = snd (pulls_update io (repo_owner ctx) (repo_repo ctx) n (releaseNotesSection st) w1)"
    using update_pull_request_unmarked_result [OF assms(5-8)] by (simp add: r)
  have 1: "filter is_update (snd (run io e ctx w))
       = [PullsUpdate (repo_owner ctx) (repo_repo ctx) n (releaseNotesSection st)]"
    using update_pull_request_unmarked [OF assms(5-8)] ev by (simp add: r)
  have 2: "prefix (nl @ nl @ ''---'' @ nl @ nl @ ''## Drupal Release Notes'' @ nl @ nl)
         (releaseNotesSection st)"
    by (simp add: x section_heading_def)
  have 3: "\<not> prefix ''null'' (releaseNotesSection st)"
    by (simp add: x section_heading_def nl_def)
  show ?thesis using 0 1 2 3 by blast
qed

text \<open>
  C10. When a package survives the filter, no changelog fetch of the run retrieves release
  notes (each throws, has a status that is no success, or has a body without changes), the
  context names a pull request and its body does not contain the heading, then the flag
  \<open>hasReleaseNotes\<close> stays false, the message that no release notes were retrieved is logged,
  and the run still applies the update call: the section appended to the body is the fixed
  heading followed by one placeholder block for each package, in order.
\<close>

theorem update_without_release_notes:
  assumes "GITHUB_TOKEN e = Some token" and "token \<noteq> []" and "drupalPackages e \<noteq> []"
    and "st = process_packages io (drupalPackages e) (initial_state w)"
    and "no_notes_retrieved io (drupalPackages e) (initial_state w)"
    and "payload_pull_request ctx = Some pull" and "pr_number pull = Some n" and "n \<noteq> 0"
    and "pulls_get io (repo_owner ctx) (repo_repo ctx) n (world st) = (Inr body, w1)"
    and "\<forall>b. body = Some b \<longrightarrow> \<not> includes_str b ''## Drupal Release Notes''"
  shows "\<not> hasReleaseNotes st
     \<and> CoreInfo ''No release notes were retrieved from the API.'' \<in> set (snd (run io e ctx w))
     \<and> fst (run io e ctx w)
       = snd (pulls_update io (repo_owner ctx) (repo_repo ctx) n
            ((case body of None \<Rightarrow> [] | Some b \<Rightarrow> b) @ releaseNotesSection st) w1)
     \<and> filter is_update (snd (run io e ctx w))
       = [PullsUpdate (repo_owner ctx) (repo_repo ctx) n
            ((case body of None \<Rightarrow> [] | Some b \<Rightarrow> b) @ releaseNotesSection st)]
     \<and> (\<exists>blocks. list_all2 placeholder_block (drupalPackages e) blocks
          \<and> releaseNotesSection st
            = nl @ nl @ ''---'' @ nl @ nl @ ''## Drupal Release Notes'' @ nl @ nl
              @ concat blocks)"
proof -
  have r: "run io e ctx w = update_pull_request io ctx st"
    using run_reaches_pull_request [OF assms(1-3)] assms(4) by simp
  have ev: "filter is_update (events st) = []"
    by (simp add: assms(4) process_packages_updates initial_state_simps)
  have 1: "\<not> hasReleaseNotes st"
    using assms(5) by (simp add: assms(4) process_packages_flag initial_state_simps)
  have 2: "CoreInfo ''No release notes were retrieved from the API.''
      \<in> set (snd (run io e ctx w))"
    using update_pull_request_unmarked_events [OF assms(6-10)] 1 by (simp add: r)
  have 3: "fst (run io e ctx w)
       = snd (pulls_update io (repo_owner ctx) (repo_repo ctx) n
            ((case body of None \<Rightarrow> [] | Some b \<Rightarrow> b) @ releaseNotesSection st) w1)"
    using update_pull_request_unmarked_result [OF assms(6-10)] by (simp add: r)
  have 4: "filter is_update (snd (run io e ctx w))
       = [PullsUpdate (repo_owner ctx) (repo_repo ctx) n
            ((case body of None \<Rightarrow> [] | Some b \<Rightarrow> b) @ releaseNotesSection st)]"
    using update_pull_request_unmarked [OF assms(6-10)] ev by (simp add: r)
  have 5: "\<exists>blocks. list_all2 placeholder_block (drupalPackages e) blocks
          \<and> releaseNotesSection st
            = nl @ nl @ ''---'' @ nl @ nl @ ''## Drupal Release Notes'' @ nl @ nl
              @ concat blocks"
    using process_packages_placeholders [of io "drupalPackages e" "initial_state w"] 1
    by (simp add: assms(4) initial_state_simps section_heading_def)
  show ?thesis using 1 2 3 4 5 by blast
qed

section \<open>Examples and the remaining properties\<close>

lemma test_io_simps:
  "fetch (test_io responses pr) url w = (responses url, w)"
  "pulls_get (test_io responses pr) owner repo n w = (pr, w)"
  "pulls_update (test_io responses pr) owner repo n body w = (Inr (), w)"
  by (simp_all add: test_io_def)

lemma fetchProjectTags_token:
  "fetchProjectTags (test_io (token_responses c) pr) ''token'' (w, evs) =
     ([''8.x-1.37'', ''8.x-1.38'', ''8.x-1.39''], w,
      evs @ [FetchCall ''https://api.drupal-mrn.dev/project?project=token''])"
  by (simp add: fetchProjectTags_def fetchProjectTags_try_def tags_url_def test_io_simps
      token_responses_def json_response_def token_tags_def)

lemma mapVersionToTag_token:
  "mapVersionToTag ''1.38.0'' [''8.x-1.37'', ''8.x-1.38'', ''8.x-1.39''] = ''8.x-1.38''"
  "mapVersionToTag ''1.39.0'' [''8.x-1.37'', ''8.x-1.38'', ''8.x-1.39''] = ''8.x-1.39''"
  by code_simp+

text \<open>
  C8, as amended. In the section of a package whose changelog was fetched, the release notes
  URL and the compare URL are built from the mapped versions and the visible text shows the
  original versions. The compare link is there exactly when the \<open>changes\<close> of the response,
  its list of type groups, is not empty (the test of the code is
  \<^verbatim>\<open>data.changes.length > 0\<close>), whether or not a group holds a change; otherwise the line of
  the versions has the release notes link only.
\<close>

theorem package_section_versions:
  assumes "fetchProjectTags io (pkg_project pkg) (world st, evs) = (tags, w1, evs1)"
    and "mappedFrom = mapVersionToTag (pkg_from pkg) tags"
    and "mappedTo = mapVersionToTag (pkg_to pkg) tags"
    and "fetch io (''https://api.drupal-mrn.dev/changelog?project='' @ pkg_project pkg
           @ ''&from='' @ mappedFrom @ ''&to='' @ mappedTo @ ''&format=json'') w1
         = (Inr response, w2)"
    and "ok response" and "json response = Inr d"
  shows "(\<forall>data changes. d = Some data \<and> data_changes data = Some changes \<and> changes \<noteq> [] \<longrightarrow>
            releaseNotesSection (process_package io pkg st) = releaseNotesSection st
              @ ''### '' @ pkg_name pkg @ nl @ nl
              @ ''**'' @ pkg_from pkg @ '' '' @ arrow @ '' ['' @ pkg_to pkg
              @ ''](https://www.drupal.org/project/'' @ pkg_project pkg @ ''/releases/''
              @ mappedTo @ '')** ([compare](https://git.drupalcode.org/project/''
              @ pkg_project pkg @ ''/-/compare/'' @ mappedFrom @ ''...'' @ mappedTo @ ''))''
              @ nl @ nl
              @ concat (map render_typeGroup changes)
              @ render_changeRecords (data_changeRecords data) @ nl)
     \<and> (d = None \<or> (\<exists>data. d = Some data
            \<and> (data_changes data = None \<or> data_changes data = Some [])) \<longrightarrow>
            releaseNotesSection (process_package io pkg st) = releaseNotesSection st
              @ ''### '' @ pkg_name pkg @ nl @ nl
              @ ''**'' @ pkg_from pkg @ '' '' @ arrow @ '' ['' @ pkg_to pkg
              @ ''](https://www.drupal.org/project/'' @ pkg_project pkg @ ''/releases/''
              @ mappedTo @ '')**'' @ nl @ nl
              @ ''_No release notes available_'' @ nl @ nl)"
proof -
  let ?evs0 = "events st @ [CoreInfo (fetching_message pkg)]"
  obtain tags' w1' evs1' where
    t: "fetchProjectTags io (pkg_project pkg) (world st, ?evs0) = (tags', w1', evs1')"
    by (metis prod_cases3)
  have "tags' = tags" "w1' = w1"
    using fetchProjectTags_events [of io "pkg_project pkg" "world st" ?evs0 evs] t assms(1)
    by simp_all
  with t have t': "fetchProjectTags io (pkg_project pkg) (world st, ?evs0) = (tags, w1, evs1')"
    by simp
  have f: "fetch io (changelog_url (pkg_project pkg) (mapVersionToTag (pkg_from pkg) tags)
      (mapVersionToTag (pkg_to pkg) tags)) w1 = (Inr response, w2)"
    using assms(2-4) by (simp add: changelog_url_def)
  have pp: "releaseNotesSection (process_package io pkg st) =
    (case nonempty_changes d of
       Some (data, changes) \<Rightarrow> releaseNotesSection st @ package_heading pkg
          @ versions_compare_line pkg (releaseNotesUrl pkg mappedTo)
              (compareUrl pkg mappedFrom mappedTo)
          @ concat (map render_typeGroup changes)
          @ render_changeRecords (data_changeRecords data) @ nl
     | None \<Rightarrow> releaseNotesSection st @ package_heading pkg
          @ versions_line pkg (releaseNotesUrl pkg mappedTo) @ no_release_notes)"
    using assms(2,3,5,6)
    by (simp add: process_package_def t' f Let_def split: option.splits)
  have 1: "releaseNotesSection (process_package io pkg st) = releaseNotesSection st
              @ ''### '' @ pkg_name pkg @ nl @ nl
              @ ''**'' @ pkg_from pkg @ '' '' @ arrow @ '' ['' @ pkg_to pkg
              @ ''](https://www.drupal.org/project/'' @ pkg_project pkg @ ''/releases/''
              @ mappedTo @ '')** ([compare](https://git.drupalcode.org/project/''
              @ pkg_project pkg @ ''/-/compare/'' @ mappedFrom @ ''...'' @ mappedTo @ ''))''
              @ nl @ nl
              @ concat (map render_typeGroup changes)
              @ render_changeRecords (data_changeRecords data) @ nl"
    if "d = Some data" "data_changes data = Some changes" "changes \<noteq> []" for data changes
  proof -
    have "nonempty_changes d = Some (data, changes)"
      using that by (simp add: nonempty_changes_def)
    then show ?thesis
      by (simp add: pp package_heading_def versions_compare_line_def releaseNotesUrl_def
          compareUrl_def)
  qed
  have 2: "releaseNotesSection (process_package io pkg st) = releaseNotesSection st
              @ ''### '' @ pkg_name pkg @ nl @ nl
              @ ''**'' @ pkg_from pkg @ '' '' @ arrow @ '' ['' @ pkg_to pkg
              @ ''](https://www.drupal.org/project/'' @ pkg_project pkg @ ''/releases/''
              @ mappedTo @ '')**'' @ nl @ nl
              @ ''_No release notes available_'' @ nl @ nl"
    if "d = None \<or> (\<exists>data. d = Some data
            \<and> (data_changes data = None \<or> data_changes data = Some []))"
  proof -
    have "nonempty_changes d = None"
      using that by (auto simp: nonempty_changes_def)
    then show ?thesis
      by (simp add: pp package_heading_def versions_line_def releaseNotesUrl_def
          no_release_notes_def)
  qed
  show ?thesis using 1 2 by blast
qed

theorem package_section_versions_witness:
  "releaseNotesSection (process_package
       (test_io (token_responses (Some token_changelog)) (Inr None)) token_package
       (initial_state ()))
     = releaseNotesSection (initial_state ())
       @ ''### drupal/token'' @ nl @ nl
       @ ''**1.38.0 '' @ arrow @ '' [1.39.0](https://www.drupal.org/project/token/releases/8.x-1.39)** ([compare](https://git.drupalcode.org/project/token/-/compare/8.x-1.38...8.x-1.39))''
       @ nl @ nl
       @ ''#### Bug'' @ nl @ nl
       @ ''* [#12345](https://www.drupal.org/i/12345): Fixed a bug'' @ nl @ nl @ nl
   \<and> releaseNotesSection (process_package
       (test_io (token_responses None) (Inr None)) token_package (initial_state ()))
     = releaseNotesSection (initial_state ())
       @ ''### drupal/token'' @ nl @ nl
       @ ''**1.38.0 '' @ arrow @ '' [1.39.0](https://www.drupal.org/project/token/releases/8.x-1.39)**''
       @ nl @ nl @ ''_No release notes available_'' @ nl @ nl"
proof -
  have t: "fetchProjectTags (test_io (token_responses c) (Inr None)) (pkg_project token_package)
      (world (initial_state ()), []) = ([''8.x-1.37'', ''8.x-1.38'', ''8.x-1.39''], (),
        [] @ [FetchCall ''https://api.drupal-mrn.dev/project?project=token''])" for c
    by (simp add: fetchProjectTags_token token_package_def)
  have m: "''8.x-1.38'' = mapVersionToTag (pkg_from token_package)
        [''8.x-1.37'', ''8.x-1.38'', ''8.x-1.39'']"
      "''8.x-1.39'' = mapVersionToTag (pkg_to token_package)
        [''8.x-1.37'', ''8.x-1.38'', ''8.x-1.39'']"
    by (simp_all add: token_package_def mapVersionToTag_token)
  have f: "fetch (test_io (token_responses c) (Inr None))
      (''https://api.drupal-mrn.dev/changelog?project='' @ pkg_project token_package
        @ ''&from='' @ ''8.x-1.38'' @ ''&to='' @ ''8.x-1.39'' @ ''&format=json'') ()
      = (Inr (json_response c), ())" for c
    by (simp add: test_io_simps token_responses_def token_package_def)
  have o: "ok (json_response c)" "json (json_response c) = Inr c" for c
    by (simp_all add: json_response_def)
  have r: "concat (map render_typeGroup [\<lparr>group_type = Some ''Bug'',
        group_changes = Some [\<lparr>change_nid = Str ''12345'',
          change_link = Str ''https://www.drupal.org/i/12345'',
          change_summary = ''#12345: Fixed a bug''\<rparr>]\<rparr>]) @ render_changeRecords (Some [])
      = ''#### Bug'' @ nl @ nl
       @ ''* [#12345](https://www.drupal.org/i/12345): Fixed a bug'' @ nl @ nl"
    by code_simp
  show ?thesis
    using package_section_versions [OF t m f o, of "Some token_changelog"]
      package_section_versions [OF t m f o, of None] r
    by (simp add: token_changelog_def token_package_def)
qed


text \<open>
  The claim as worded, with the compare link only when there is at least one change, fails
  for a response whose only type group is empty: no change entry, and the link is there.
\<close>

theorem compare_link_without_change_entry:
  "change_entries (Some empty_group_changelog) = []
   \<and> releaseNotesSection (process_package
         (test_io (token_responses (Some empty_group_changelog)) (Inr None)) token_package
         (initial_state ()))
       = nl @ nl @ ''---'' @ nl @ nl @ ''## Drupal Release Notes'' @ nl @ nl
         @ ''### drupal/token'' @ nl @ nl
         @ ''**1.38.0 '' @ arrow @ '' [1.39.0](https://www.drupal.org/project/token/releases/8.x-1.39)** ([compare](https://git.drupalcode.org/project/token/-/compare/8.x-1.38...8.x-1.39))''
         @ nl @ nl @ nl"
  by code_simp

lemma recording_io_simps:
  "fetch (recording_io responses pr) url w = (responses url, w)"
  "pulls_get (recording_io responses pr) owner repo n w = (pr, w)"
  "pulls_update (recording_io responses pr) owner repo n body w = (Inr (), w @ [body])"
  by (simp_all add: recording_io_def)

lemma example_env_simps:
  "GITHUB_TOKEN (example_env names previous new) = Some ''test-token''"
  "env_or_empty (DEPENDENCY_NAMES (example_env names previous new)) = names"
  "env_or_empty (PREVIOUS_VERSION (example_env names previous new)) = previous"
  "env_or_empty (NEW_VERSION (example_env names previous new)) = new"
  by (simp_all add: example_env_def env_or_empty_def)

lemma example_context_simps:
  "payload_pull_request example_context = Some \<lparr>pr_number = Some 123\<rparr>"
  "repo_owner example_context = ''test-owner''"
  "repo_repo example_context = ''test-repo''"
  by (simp_all add: example_context_def)

lemma token_update_packages:
  "drupalPackages (example_env ''drupal/token'' ''1.38.0'' ''1.39.0'') = [token_package]"
  by code_simp

theorem marker_prevents_update_witness:
  "includes_str (''Existing text'' @ nl @ nl @ ''## Drupal Release Notes'' @ nl @ nl @ ''Old notes'')
      ''## Drupal Release Notes''
   \<and> filter is_update (snd (run
        (test_io (token_responses (Some token_changelog))
          (Inr (Some (''Existing text'' @ nl @ nl @ ''## Drupal Release Notes'' @ nl @ nl
             @ ''Old notes''))))
        (example_env ''drupal/token'' ''1.38.0'' ''1.39.0'') example_context ())) = []"
proof -
  have m: "includes_str (''Existing text'' @ nl @ nl @ ''## Drupal Release Notes'' @ nl @ nl
      @ ''Old notes'') ''## Drupal Release Notes''"
    by code_simp
  have p: "drupalPackages (example_env ''drupal/token'' ''1.38.0'' ''1.39.0'') \<noteq> []"
    by (simp add: token_update_packages)
  have n: "pr_number \<lparr>pr_number = Some 123\<rparr> = Some 123" "(123::nat) \<noteq> 0" "''test-token'' \<noteq> []"
    by simp_all
  have "filter is_update (snd (run
        (test_io (token_responses (Some token_changelog))
          (Inr (Some (''Existing text'' @ nl @ nl @ ''## Drupal Release Notes'' @ nl @ nl
             @ ''Old notes''))))
        (example_env ''drupal/token'' ''1.38.0'' ''1.39.0'') example_context ())) = []"
    using marker_prevents_update [where w = "()"
        and io = "test_io (token_responses (Some token_changelog))
          (Inr (Some (''Existing text'' @ nl @ nl @ ''## Drupal Release Notes'' @ nl @ nl
             @ ''Old notes'')))",
        OF example_env_simps(1) n(3) p refl example_context_simps(1) n(1) n(2)
          test_io_simps(2) m]
    by blast
  with m show ?thesis by blast
qed

lemma token_notes_section:
  "releaseNotesSection (process_packages
       (recording_io (token_responses (Some token_changelog)) (Inr None))
       [token_package] (initial_state []))
     = nl @ nl @ ''---'' @ nl @ nl @ ''## Drupal Release Notes'' @ nl @ nl
       @ ''### drupal/token'' @ nl @ nl
       @ ''**1.38.0 '' @ arrow @ '' [1.39.0](https://www.drupal.org/project/token/releases/8.x-1.39)** ([compare](https://git.drupalcode.org/project/token/-/compare/8.x-1.38...8.x-1.39))''
       @ nl @ nl
       @ ''#### Bug'' @ nl @ nl
       @ ''* [#12345](https://www.drupal.org/i/12345): Fixed a bug'' @ nl @ nl @ nl"
  by code_simp

theorem null_body_update_witness:
  "fst (run (recording_io (token_responses (Some token_changelog)) (Inr None))
        (example_env ''drupal/token'' ''1.38.0'' ''1.39.0'') example_context [])
     = [nl @ nl @ ''---'' @ nl @ nl @ ''## Drupal Release Notes'' @ nl @ nl
       @ ''### drupal/token'' @ nl @ nl
       @ ''**1.38.0 '' @ arrow @ '' [1.39.0](https://www.drupal.org/project/token/releases/8.x-1.39)** ([compare](https://git.drupalcode.org/project/token/-/compare/8.x-1.38...8.x-1.39))''
       @ nl @ nl
       @ ''#### Bug'' @ nl @ nl
       @ ''* [#12345](https://www.drupal.org/i/12345): Fixed a bug'' @ nl @ nl @ nl]"
proof -
  have p: "drupalPackages (example_env ''drupal/token'' ''1.38.0'' ''1.39.0'') \<noteq> []"
    by (simp add: token_update_packages)
  have n: "pr_number \<lparr>pr_number = Some 123\<rparr> = Some 123" "(123::nat) \<noteq> 0" "''test-token'' \<noteq> []"
    by simp_all
  have w: "world (process_packages
       (recording_io (token_responses (Some token_changelog)) (Inr None))
       [token_package] (initial_state [])) = []"
    by code_simp
  have "fst (run (recording_io (token_responses (Some token_changelog)) (Inr None))
        (example_env ''drupal/token'' ''1.38.0'' ''1.39.0'') example_context [])
     = snd (pulls_update (recording_io (token_responses (Some token_changelog)) (Inr None))
         ''test-owner'' ''test-repo'' 123
         (releaseNotesSection (process_packages
            (recording_io (token_responses (Some token_changelog)) (Inr None))
            [token_package] (initial_state [])))
         (world (process_packages
            (recording_io (token_responses (Some token_changelog)) (Inr None))
            [token_package] (initial_state []))))"
    using null_body_update [where w = "[]"
        and io = "recording_io (token_responses (Some token_changelog)) (Inr None)",
        OF example_env_simps(1) n(3) p refl example_context_simps(1) n(1) n(2)
          recording_io_simps(2)]
    unfolding token_update_packages example_context_simps by blast
  then show ?thesis
    unfolding recording_io_simps token_notes_section w by simp
qed

lemma could_not_fetch_section:
  "releaseNotesSection (process_packages
       (recording_io notes_elsewhere (Inr (Some ''Original text'')))
       [token_package] (initial_state []))
     = nl @ nl @ ''---'' @ nl @ nl @ ''## Drupal Release Notes'' @ nl @ nl
       @ ''### drupal/token'' @ nl @ nl
       @ ''_Could not fetch release notes (1.38.0 '' @ arrow @ '' 1.39.0)_'' @ nl @ nl"
  by code_simp

theorem update_without_release_notes_witness:
  "no_notes_retrieved (recording_io notes_elsewhere (Inr (Some ''Original text'')))
       [token_package] (initial_state [])
   \<and> \<not> includes_str ''Original text'' ''## Drupal Release Notes''
   \<and> fst (run (recording_io notes_elsewhere (Inr (Some ''Original text'')))
        (example_env ''drupal/token'' ''1.38.0'' ''1.39.0'') example_context [])
     = [''Original text'' @ nl @ nl @ ''---'' @ nl @ nl @ ''## Drupal Release Notes'' @ nl @ nl
       @ ''### drupal/token'' @ nl @ nl
       @ ''_Could not fetch release notes (1.38.0 '' @ arrow @ '' 1.39.0)_'' @ nl @ nl]"
proof -
  have p: "drupalPackages (example_env ''drupal/token'' ''1.38.0'' ''1.39.0'') \<noteq> []"
    by (simp add: token_update_packages)
  have n: "pr_number \<lparr>pr_number = Some 123\<rparr> = Some 123" "(123::nat) \<noteq> 0" "''test-token'' \<noteq> []"
    by simp_all
  have f: "no_notes_retrieved (recording_io notes_elsewhere (Inr (Some ''Original text'')))
       [token_package] (initial_state [])"
    by code_simp
  then have f': "no_notes_retrieved (recording_io notes_elsewhere (Inr (Some ''Original text'')))
       (drupalPackages (example_env ''drupal/token'' ''1.38.0'' ''1.39.0'')) (initial_state [])"
    by (simp only: token_update_packages)
  have m: "\<not> includes_str ''Original text'' ''## Drupal Release Notes''"
    by code_simp
  then have b: "\<forall>b. Some ''Original text'' = Some b
      \<longrightarrow> \<not> includes_str b ''## Drupal Release Notes''"
    by simp
  have w: "world (process_packages
       (recording_io notes_elsewhere (Inr (Some ''Original text'')))
       [token_package] (initial_state [])) = []"
    by code_simp
  have "fst (run (recording_io notes_elsewhere (Inr (Some ''Original text'')))
        (example_env ''drupal/token'' ''1.38.0'' ''1.39.0'') example_context [])
     = snd (pulls_update (recording_io notes_elsewhere (Inr (Some ''Original text'')))
         ''test-owner'' ''test-repo'' 123
         ((case Some ''Original text'' of None \<Rightarrow> [] | Some b \<Rightarrow> b)
           @ releaseNotesSection (process_packages
              (recording_io notes_elsewhere (Inr (Some ''Original text'')))
              [token_package] (initial_state [])))
         (world (process_packages
            (recording_io notes_elsewhere (Inr (Some ''Original text'')))
            [token_package] (initial_state []))))"
    using update_without_release_notes [where w = "[]"
        and io = "recording_io notes_elsewhere (Inr (Some ''Original text''))",
        OF example_env_simps(1) n(3) p refl f' example_context_simps(1) n(1) n(2)
          recording_io_simps(2) b]
    unfolding token_update_packages example_context_simps by blast
  then have "fst (run (recording_io notes_elsewhere (Inr (Some ''Original text'')))
        (example_env ''drupal/token'' ''1.38.0'' ''1.39.0'') example_context [])
     = [''Original text'' @ nl @ nl @ ''---'' @ nl @ nl @ ''## Drupal Release Notes'' @ nl @ nl
       @ ''### drupal/token'' @ nl @ nl
       @ ''_Could not fetch release notes (1.38.0 '' @ arrow @ '' 1.39.0)_'' @ nl @ nl]"
    unfolding recording_io_simps could_not_fetch_section w option.case by simp
  with f m show ?thesis by blast
qed

lemma drupalPackages_loop_map:
  "drupalPackages_loop ps fs ts i acc =
     acc @ map (\<lambda>i. \<lparr>pkg_name = ps ! i, pkg_project = replace ''drupal/'' [] (ps ! i),
                      pkg_from = elem_or_first fs i, pkg_to = elem_or_first ts i\<rparr>)
             (filter (\<lambda>i. prefix ''drupal/'' (ps ! i)) [i..<length ps])"
proof (induction ps fs ts i acc rule: drupalPackages_loop.induct)
  case (1 ps fs ts i acc)
  show ?case
  proof (cases "i < length ps")
    case True
    then have u: "[i..<length ps] = i # [Suc i..<length ps]" by (simp add: upt_conv_Cons)
    show ?thesis
      using True "1.IH" [OF True]
      by (subst drupalPackages_loop.simps) (simp add: u)
  next
    case False
    then show ?thesis by (subst drupalPackages_loop.simps) simp
  qed
qed

lemma split_no_separator: "c \<notin> set s \<Longrightarrow> split c s = [s]"
  by (induction s) auto

lemma split_not_empty: "split c s \<noteq> []"
  by (induction s) (auto split: list.splits)

lemma elem_or_first_single: "elem_or_first [x] i = x"
  by (simp add: elem_or_first_def)

lemma drupalPackages_shared:
  assumes "CHR '','' \<notin> set (env_or_empty (PREVIOUS_VERSION e))"
    and "CHR '','' \<notin> set (env_or_empty (NEW_VERSION e))"
    and "p \<in> set (drupalPackages e)"
  shows "pkg_from p = trim (env_or_empty (PREVIOUS_VERSION e))
     \<and> pkg_to p = trim (env_or_empty (NEW_VERSION e))"
  using assms(3)
  by (auto simp: drupalPackages_def drupalPackages_loop_map split_trim_def
      split_no_separator [OF assms(1)] split_no_separator [OF assms(2)] elem_or_first_single)

lemma drupalPackages_by_index:
  "drupalPackages e =
     (let packages = map trim (split CHR '','' (env_or_empty (DEPENDENCY_NAMES e)));
          fromVersions = map trim (split CHR '','' (env_or_empty (PREVIOUS_VERSION e)));
          toVersions = map trim (split CHR '','' (env_or_empty (NEW_VERSION e)))
      in map (\<lambda>i. \<lparr>pkg_name = packages ! i,
                     pkg_project = replace ''drupal/'' [] (packages ! i),
                     pkg_from = (if i < length fromVersions \<and> fromVersions ! i \<noteq> []
                                 then fromVersions ! i else hd fromVersions),
                     pkg_to = (if i < length toVersions \<and> toVersions ! i \<noteq> []
                               then toVersions ! i else hd toVersions)\<rparr>)
           (filter (\<lambda>i. prefix ''drupal/'' (packages ! i)) [0..<length packages]))"
  by (simp add: drupalPackages_def drupalPackages_loop_map split_trim_def elem_or_first_def
      Let_def)

lemma drupalPackages_example:
  "drupalPackages \<lparr>GITHUB_TOKEN = t,
       DEPENDENCY_NAMES = Some ''drupal/core,other/pkg,drupal/token'',
       PREVIOUS_VERSION = Some ''10.0.0,1.0.0,1.0.0'',
       NEW_VERSION = Some ''10.1.0,1.1.0,1.1.0''\<rparr>
     = [\<lparr>pkg_name = ''drupal/core'', pkg_project = ''core'', pkg_from = ''10.0.0'',
          pkg_to = ''10.1.0''\<rparr>,
        \<lparr>pkg_name = ''drupal/token'', pkg_project = ''token'', pkg_from = ''1.0.0'',
          pkg_to = ''1.1.0''\<rparr>]"
proof -
  have "drupalPackages_loop
      (split_trim ''drupal/core,other/pkg,drupal/token'') (split_trim ''10.0.0,1.0.0,1.0.0'')
      (split_trim ''10.1.0,1.1.0,1.1.0'') 0 []
     = [\<lparr>pkg_name = ''drupal/core'', pkg_project = ''core'', pkg_from = ''10.0.0'',
          pkg_to = ''10.1.0''\<rparr>,
        \<lparr>pkg_name = ''drupal/token'', pkg_project = ''token'', pkg_from = ''1.0.0'',
          pkg_to = ''1.1.0''\<rparr>]"
    by code_simp
  then show ?thesis by (simp add: drupalPackages_def env_or_empty_def)
qed

text \<open>
  C6. For the names \<open>drupal/core,other/pkg,drupal/token\<close> with the versions
  \<open>10.0.0,1.0.0,1.0.0\<close> and \<open>10.1.0,1.1.0,1.1.0\<close> exactly the packages \<open>core\<close> and \<open>token\<close>
  are kept, each with the versions at its own index. In general the package at index \<open>i\<close>
  has the version at index \<open>i\<close> and, where there is none (or an empty one), the first
  version of the list; so with one shared pair of versions every package has that pair.
\<close>

theorem drupalPackages_versions:
  "drupalPackages \<lparr>GITHUB_TOKEN = t,
       DEPENDENCY_NAMES = Some ''drupal/core,other/pkg,drupal/token'',
       PREVIOUS_VERSION = Some ''10.0.0,1.0.0,1.0.0'',
       NEW_VERSION = Some ''10.1.0,1.1.0,1.1.0''\<rparr>
     = [\<lparr>pkg_name = ''drupal/core'', pkg_project = ''core'', pkg_from = ''10.0.0'',
          pkg_to = ''10.1.0''\<rparr>,
        \<lparr>pkg_name = ''drupal/token'', pkg_project = ''token'', pkg_from = ''1.0.0'',
          pkg_to = ''1.1.0''\<rparr>]
   \<and> drupalPackages e =
     (let packages = map trim (split CHR '','' (env_or_empty (DEPENDENCY_NAMES e)));
          fromVersions = map trim (split CHR '','' (env_or_empty (PREVIOUS_VERSION e)));
          toVersions = map trim (split CHR '','' (env_or_empty (NEW_VERSION e)))
      in map (\<lambda>i. \<lparr>pkg_name = packages ! i,
                     pkg_project = replace ''drupal/'' [] (packages ! i),
                     pkg_from = (if i < length fromVersions \<and> fromVersions ! i \<noteq> []
                                 then fromVersions ! i else hd fromVersions),
                     pkg_to = (if i < length toVersions \<and> toVersions ! i \<noteq> []
                               then toVersions ! i else hd toVersions)\<rparr>)
           (filter (\<lambda>i. prefix ''drupal/'' (packages ! i)) [0..<length packages]))
   \<and> (CHR '','' \<notin> set (env_or_empty (PREVIOUS_VERSION e))
        \<and> CHR '','' \<notin> set (env_or_empty (NEW_VERSION e)) \<longrightarrow>
        (\<forall>p \<in> set (drupalPackages e).
           pkg_from p = trim (env_or_empty (PREVIOUS_VERSION e))
           \<and> pkg_to p = trim (env_or_empty (NEW_VERSION e))))"
  using drupalPackages_example drupalPackages_by_index drupalPackages_shared by blast

theorem drupalPackages_versions_witness:
  "CHR '','' \<notin> set ''10.0.0'' \<and> CHR '','' \<notin> set ''10.1.0''
   \<and> map pkg_name (drupalPackages (example_env ''drupal/core,drupal/token'' ''10.0.0'' ''10.1.0''))
      = [''drupal/core'', ''drupal/token'']
   \<and> list_all (\<lambda>p. pkg_from p = ''10.0.0'' \<and> pkg_to p = ''10.1.0'')
        (drupalPackages (example_env ''drupal/core,drupal/token'' ''10.0.0'' ''10.1.0''))"
proof -
  have c: "CHR '','' \<notin> set ''10.0.0''" "CHR '','' \<notin> set ''10.1.0''" by simp_all
  have t: "trim ''10.0.0'' = ''10.0.0''" "trim ''10.1.0'' = ''10.1.0''" by code_simp+
  have n: "map pkg_name (drupalPackages (example_env ''drupal/core,drupal/token'' ''10.0.0''
      ''10.1.0'')) = [''drupal/core'', ''drupal/token'']"
    by code_simp
  show ?thesis
    using c n drupalPackages_versions
      [of _ "example_env ''drupal/core,drupal/token'' ''10.0.0'' ''10.1.0''"]
    by (simp add: example_env_simps t list_all_iff)
qed

end
